theory Spec2Isabelle
  imports Main "HOL-Library.Sublist" "HOL-Library.AList"
begin

section \<open>Python values and errors\<close>

text \<open>
  The what-if core of the course-schedule optimiser: the query translator and the
  constraint validator (\<^verbatim>\<open>Product/query_translator.py\<close>), the what-if call of the solver
  interface (\<^verbatim>\<open>Product/solver_interface.py\<close>) and the graph of reasons
  (\<^verbatim>\<open>Product/explanation_agent.py\<close>).

  Typing. The source annotates the fields of a constraint as \<^verbatim>\<open>Optional[str]\<close> and
  \<^verbatim>\<open>Optional[int]\<close>; identifiers, day labels and times are strings, weeks and period
  indices are integers. A dictionary that the code reads with \<^verbatim>\<open>d.get(k)\<close> is a record of
  \<open>option\<close> fields, one per key the code reads: \<open>None\<close> stands for "key absent" and for
  the value \<^verbatim>\<open>None\<close>, which \<^verbatim>\<open>get\<close> does not tell apart. Where the code indexes
  \<^verbatim>\<open>d[k]\<close>, the field is \<open>None\<close> when the key is absent and the read raises
  \<^verbatim>\<open>KeyError\<close>. Strings are lists of 8-bit characters.
\<close>

datatype py_error =
    ValueError string       \<comment> \<open>\<^verbatim>\<open>raise ValueError(msg)\<close> written in the source\<close>
  | KeyError string         \<comment> \<open>\<^verbatim>\<open>d[k]\<close> on a dictionary without the key \<open>k\<close>\<close>
  | InvalidLiteral string   \<comment> \<open>the \<^verbatim>\<open>ValueError\<close> of \<^verbatim>\<open>int(s)\<close> on a text that is no number\<close>
  | UnpackError nat         \<comment> \<open>the \<^verbatim>\<open>ValueError\<close> of \<^verbatim>\<open>a, b = ...\<close> on a sequence of another length\<close>

text \<open>Truthiness of an optional string: \<^verbatim>\<open>None\<close> and \<^verbatim>\<open>""\<close> are false.\<close>

definition truthy :: "string option \<Rightarrow> bool" where
  "truthy v = (case v of None \<Rightarrow> False | Some s \<Rightarrow> s \<noteq> [])"

text \<open>\<^verbatim>\<open>d[k]\<close>: the value, or \<^verbatim>\<open>KeyError\<close> when the key is absent.\<close>

definition index_key :: "string \<Rightarrow> 'a option \<Rightarrow> py_error + 'a" where
  "index_key k v = (case v of None \<Rightarrow> Inl (KeyError k) | Some x \<Rightarrow> Inr x)"

subsection \<open>Formatting and parsing of integers\<close>

definition digit_char :: "nat \<Rightarrow> char" where
  "digit_char d = ''0123456789'' ! d"

function str_nat :: "nat \<Rightarrow> string" where
  "str_nat n = (if n < 10 then [digit_char n] else str_nat (n div 10) @ [digit_char (n mod 10)])"
  by pat_completeness auto
termination
  by (relation "measure (\<lambda>n. n)") auto

declare str_nat.simps [simp del]

text \<open>\<^verbatim>\<open>str(i)\<close> of an integer, and what an f-string prints for an optional value.\<close>

definition str_int :: "int \<Rightarrow> string" where
  "str_int i = (if i < 0 then CHR ''-'' # str_nat (nat (- i)) else str_nat (nat i))"

definition fmt_str :: "string option \<Rightarrow> string" where
  "fmt_str v = (case v of None \<Rightarrow> ''None'' | Some s \<Rightarrow> s)"

definition fmt_int :: "int option \<Rightarrow> string" where
  "fmt_int v = (case v of None \<Rightarrow> ''None'' | Some i \<Rightarrow> str_int i)"

text \<open>
  \<^verbatim>\<open>int(s)\<close> on a text. The model reads a non-empty run of ASCII digits (what an
  \<^verbatim>\<open>"HH:MM"\<close> time is made of); Python accepts a sign, surrounding blanks and
  underscores as well, which the model does not read: no statement below rests on a
  text being refused.
\<close>

definition is_digit :: "char \<Rightarrow> bool" where
  "is_digit c = ((48::nat) \<le> of_char c \<and> (of_char c :: nat) \<le> 57)"

definition digits_value :: "string \<Rightarrow> int" where
  "digits_value s = foldl (\<lambda>acc c. 10 * acc + (int (of_char c) - 48)) 0 s"

definition py_int :: "string \<Rightarrow> py_error + int" where
  "py_int s = (if s \<noteq> [] \<and> list_all is_digit s then Inr (digits_value s) else Inl (InvalidLiteral s))"

text \<open>\<^verbatim>\<open>s.split(":")\<close>: the pieces between the colons, one more than there are colons.\<close>

fun split_colon :: "string \<Rightarrow> string list" where
  "split_colon [] = [[]]"
| "split_colon (c # cs) =
     (if c = CHR '':'' then [] # split_colon cs
      else (case split_colon cs of [] \<Rightarrow> [[c]] | p # ps \<Rightarrow> (c # p) # ps))"

text \<open>
  \<^verbatim>\<open>h, m = map(int, s.split(":"))\<close>: the unpacking draws the numbers one at a time, so a
  piece that is no number raises before the count of pieces is looked at, up to the third.
\<close>

definition parse_hm :: "string \<Rightarrow> py_error + (int \<times> int)" where
  "parse_hm s =
     (case split_colon s of
        [] \<Rightarrow> Inl (UnpackError 0)
      | [a] \<Rightarrow> (case py_int a of Inl e \<Rightarrow> Inl e | Inr _ \<Rightarrow> Inl (UnpackError 1))
      | a # b # rest \<Rightarrow>
          (case py_int a of Inl e \<Rightarrow> Inl e
           | Inr h \<Rightarrow>
              (case py_int b of Inl e \<Rightarrow> Inl e
               | Inr m \<Rightarrow>
                  (case rest of [] \<Rightarrow> Inr (h, m)
                   | c # _ \<Rightarrow> (case py_int c of Inl e \<Rightarrow> Inl e | Inr _ \<Rightarrow> Inl (UnpackError 3))))))"

section \<open>The query constraint model\<close>

datatype QueryType =
    ENFORCE_TIME_SLOT | ENFORCE_DAY | ENFORCE_ROOM | ENFORCE_BEFORE_TIME | ENFORCE_AFTER_TIME
  | ENFORCE_NO_LUNCH | ENFORCE_CONSECUTIVE
  | VETO_TIME_SLOT | VETO_DAY | VETO_ROOM | VETO_LUNCH | VETO_INSTRUCTOR_DAY
  | SWAP_TIME_SLOTS | SWAP_ROOMS

text \<open>The members of the enumeration, in declaration order, and the value of each.\<close>

definition QueryType_members :: "QueryType list" where
  "QueryType_members =
     [ENFORCE_TIME_SLOT, ENFORCE_DAY, ENFORCE_ROOM, ENFORCE_BEFORE_TIME, ENFORCE_AFTER_TIME,
      ENFORCE_NO_LUNCH, ENFORCE_CONSECUTIVE,
      VETO_TIME_SLOT, VETO_DAY, VETO_ROOM, VETO_LUNCH, VETO_INSTRUCTOR_DAY,
      SWAP_TIME_SLOTS, SWAP_ROOMS]"

fun QueryType_value :: "QueryType \<Rightarrow> string" where
  "QueryType_value ENFORCE_TIME_SLOT = ''enforce_time_slot''"
| "QueryType_value ENFORCE_DAY = ''enforce_day''"
| "QueryType_value ENFORCE_ROOM = ''enforce_room''"
| "QueryType_value ENFORCE_BEFORE_TIME = ''enforce_before_time''"
| "QueryType_value ENFORCE_AFTER_TIME = ''enforce_after_time''"
| "QueryType_value ENFORCE_NO_LUNCH = ''enforce_no_lunch''"
| "QueryType_value ENFORCE_CONSECUTIVE = ''enforce_consecutive''"
| "QueryType_value VETO_TIME_SLOT = ''veto_time_slot''"
| "QueryType_value VETO_DAY = ''veto_day''"
| "QueryType_value VETO_ROOM = ''veto_room''"
| "QueryType_value VETO_LUNCH = ''veto_lunch''"
| "QueryType_value VETO_INSTRUCTOR_DAY = ''veto_instructor_day''"
| "QueryType_value SWAP_TIME_SLOTS = ''swap_time_slots''"
| "QueryType_value SWAP_ROOMS = ''swap_rooms''"

text \<open>\<^verbatim>\<open>QueryType(query_type)\<close>: the member with that value; none is Python's \<^verbatim>\<open>ValueError\<close>.\<close>

definition QueryType_of_value :: "string \<Rightarrow> QueryType option" where
  "QueryType_of_value s = find (\<lambda>q. QueryType_value q = s) QueryType_members"

record QueryConstraint =
  query_type :: QueryType
  course_id :: "string option"
  instructor_id :: "string option"
  week :: "int option"
  day :: "string option"
  period_start :: "int option"
  period_end :: "int option"
  room_id :: "string option"
  course_id_2 :: "string option"
  extra_params :: "(string \<times> string) list"

text \<open>\<^verbatim>\<open>QueryConstraint(query_type=q)\<close>: every other argument at its default.\<close>

definition QueryConstraint_init :: "QueryType \<Rightarrow> QueryConstraint" where
  "QueryConstraint_init q =
     \<lparr>query_type = q, course_id = None, instructor_id = None, week = None, day = None,
      period_start = None, period_end = None, room_id = None, course_id_2 = None,
      extra_params = []\<rparr>"

section \<open>The inputs of the translator\<close>

text \<open>An assignment of the current schedule; \<open>a_course_id\<close> is read with \<^verbatim>\<open>get\<close>, the slot by index.\<close>

record Assignment =
  a_course_id :: "string option"
  a_week :: "int option"
  a_day :: "string option"
  a_period_start :: "int option"

record Schedule =
  assignments :: "Assignment list option"

record Params =
  p_course_id :: "string option"
  p_instructor_id :: "string option"
  p_week :: "int option"
  p_day :: "string option"
  p_period_start :: "int option"
  p_room_id :: "string option"
  p_period_before :: "int option"
  p_period_after :: "int option"
  p_course_id_1 :: "string option"
  p_course_id_2 :: "string option"
  p_current_schedule :: "Schedule option"

text \<open>A course and an instructor of the instance; the identifier is read by index.\<close>

record Course =
  c_id :: "string option"
  c_instructor_id :: "string option"

record Instructor =
  i_id :: "string option"

record TermConfig =
  day_start_time :: "string option"
  lunch_start_time :: "string option"
  lunch_end_time :: "string option"
  period_length_minutes :: "int option"
  days :: "string list option"

record InputData =
  courses :: "Course list option"
  instructors :: "Instructor list option"
  term_config :: "TermConfig option"

text \<open>\<^verbatim>\<open>d.get(k, default)\<close>.\<close>

definition get_default :: "'a option \<Rightarrow> 'a \<Rightarrow> 'a" where
  "get_default v d = (case v of None \<Rightarrow> d | Some x \<Rightarrow> x)"

definition empty_term_config :: TermConfig where
  "empty_term_config =
     \<lparr>day_start_time = None, lunch_start_time = None, lunch_end_time = None,
      period_length_minutes = None, days = None\<rparr>"

definition empty_schedule :: Schedule where
  "empty_schedule = \<lparr>assignments = None\<rparr>"

section \<open>The query translator\<close>

text \<open>The translator object: its only attribute is the table of patterns built at construction.\<close>

record QueryTranslator =
  query_patterns :: "(string \<times> string) list"

definition backslash :: char where
  "backslash = CHR 0x5C"

definition build_query_patterns :: "(string \<times> string) list" where
  "build_query_patterns =
     [(''veto_day'', ''(avoid|not on|no classes on)'' @ backslash # ''s+('' @ backslash # ''w+day)''),
      (''enforce_time'', ''(schedule|put|assign).*?on'' @ backslash # ''s+('' @ backslash # ''w+day).*?at''
          @ backslash # ''s+('' @ backslash # ''d+)''),
      (''before_time'', ''before'' @ backslash # ''s+('' @ backslash # ''d+)''),
      (''after_time'', ''after'' @ backslash # ''s+('' @ backslash # ''d+)''),
      (''swap'', ''swap.*?('' @ backslash # ''w+).*?and.*?('' @ backslash # ''w+)'')]"

definition QueryTranslator_init :: QueryTranslator where
  "QueryTranslator_init = \<lparr>query_patterns = build_query_patterns\<rparr>"

subsection \<open>Lunch periods\<close>

text \<open>
  The \<^verbatim>\<open>while\<close> loop of \<^verbatim>\<open>_get_lunch_periods\<close>. It runs for ever when the period length is
  not positive and the day starts before lunch ends, so it is a partial function: \<open>None\<close>
  is "does not return".
\<close>

partial_function (option) lunch_loop ::
  "int \<Rightarrow> int \<Rightarrow> int \<Rightarrow> int \<Rightarrow> int \<Rightarrow> int list \<Rightarrow> int list option" where
  "lunch_loop period_length lunch_start_minutes lunch_end_minutes current_time period_index lunch_periods =
     (if current_time < lunch_end_minutes then
        (let period_end = current_time + period_length in
         lunch_loop period_length lunch_start_minutes lunch_end_minutes period_end (period_index + 1)
           (if period_end > lunch_start_minutes \<and> current_time < lunch_end_minutes
            then lunch_periods @ [period_index] else lunch_periods))
      else Some lunch_periods)"

definition get_lunch_periods :: "QueryTranslator \<Rightarrow> TermConfig \<Rightarrow> (py_error + int list) option" where
  "get_lunch_periods self tc =
     (let day_start = get_default (day_start_time tc) ''08:00'';
          lunch_start = get_default (lunch_start_time tc) ''12:00'';
          lunch_end = get_default (lunch_end_time tc) ''12:30'';
          period_length = get_default (period_length_minutes tc) 30
      in case parse_hm day_start of Inl e \<Rightarrow> Some (Inl e)
         | Inr (start_hour, start_min) \<Rightarrow>
        (case parse_hm lunch_start of Inl e \<Rightarrow> Some (Inl e)
         | Inr (lunch_start_hour, lunch_start_min) \<Rightarrow>
        (case parse_hm lunch_end of Inl e \<Rightarrow> Some (Inl e)
         | Inr (lunch_end_hour, lunch_end_min) \<Rightarrow>
           (let start_minutes = start_hour * 60 + start_min;
                lunch_start_minutes = lunch_start_hour * 60 + lunch_start_min;
                lunch_end_minutes = lunch_end_hour * 60 + lunch_end_min
            in map_option Inr
                 (lunch_loop period_length lunch_start_minutes lunch_end_minutes start_minutes 0 [])))))"

subsection \<open>Current assignments\<close>

text \<open>The \<^verbatim>\<open>for\<close> loop of \<^verbatim>\<open>_find_assignment\<close>: the first assignment of the course.\<close>

fun find_assignment_loop :: "string option \<Rightarrow> Assignment list \<Rightarrow> Assignment option" where
  "find_assignment_loop cid [] = None"
| "find_assignment_loop cid (assignment # rest) =
     (if a_course_id assignment = cid then Some assignment else find_assignment_loop cid rest)"

definition find_assignment :: "QueryTranslator \<Rightarrow> string option \<Rightarrow> Schedule \<Rightarrow> Assignment option" where
  "find_assignment self cid schedule = find_assignment_loop cid (get_default (assignments schedule) [])"

text \<open>
  The three indexed reads of an assignment, in the order the constructor call makes them:
  \<^verbatim>\<open>a["week"]\<close>, \<^verbatim>\<open>a["day"]\<close>, \<^verbatim>\<open>a["period_start"]\<close>.
\<close>

definition assignment_slot :: "Assignment \<Rightarrow> py_error + (int \<times> string \<times> int)" where
  "assignment_slot a =
     (case index_key ''week'' (a_week a) of Inl e \<Rightarrow> Inl e
      | Inr w \<Rightarrow>
         (case index_key ''day'' (a_day a) of Inl e \<Rightarrow> Inl e
          | Inr d \<Rightarrow>
             (case index_key ''period_start'' (a_period_start a) of Inl e \<Rightarrow> Inl e
              | Inr p \<Rightarrow> Inr (w, d, p))))"

definition slot_constraint :: "QueryType \<Rightarrow> string option \<Rightarrow> int \<times> string \<times> int \<Rightarrow> QueryConstraint" where
  "slot_constraint q cid slot =
     (case slot of (w, d, p) \<Rightarrow>
        (QueryConstraint_init q)\<lparr>course_id := cid, week := Some w, day := Some d, period_start := Some p\<rparr>)"

subsection \<open>Expansions over courses and days\<close>

text \<open>
  The loop \<^verbatim>\<open>for course in courses\<close> of both instructor expansions: one constraint of kind
  \<open>q\<close> per course, on \<^verbatim>\<open>course["id"]\<close>; a course without \<^verbatim>\<open>id\<close> raises.
\<close>

fun day_constraints :: "QueryType \<Rightarrow> string option \<Rightarrow> Course list \<Rightarrow> py_error + QueryConstraint list" where
  "day_constraints q d [] = Inr []"
| "day_constraints q d (course # rest) =
     (case index_key ''id'' (c_id course) of Inl e \<Rightarrow> Inl e
      | Inr cid \<Rightarrow>
         (case day_constraints q d rest of Inl e \<Rightarrow> Inl e
          | Inr cs \<Rightarrow> Inr ((QueryConstraint_init q)\<lparr>course_id := Some cid, day := d\<rparr> # cs)))"

text \<open>\<^verbatim>\<open>[c for c in input_data.get("courses", []) if c.get("instructor_id") == instructor_id]\<close>\<close>

definition courses_of_instructor :: "InputData \<Rightarrow> string option \<Rightarrow> Course list" where
  "courses_of_instructor input_data iid =
     filter (\<lambda>c. c_instructor_id c = iid) (get_default (courses input_data) [])"

text \<open>The nested loops of the lunch expansion: days outside, lunch periods inside.\<close>

definition lunch_constraints :: "string option \<Rightarrow> string list \<Rightarrow> int list \<Rightarrow> QueryConstraint list" where
  "lunch_constraints cid ds lunch_periods =
     concat (map (\<lambda>d. map (\<lambda>period.
        (QueryConstraint_init VETO_TIME_SLOT)\<lparr>course_id := cid, day := Some d, period_start := Some period\<rparr>)
        lunch_periods) ds)"

subsection \<open>Structured queries\<close>

definition parse_structured_query ::
  "QueryTranslator \<Rightarrow> string \<Rightarrow> Params \<Rightarrow> InputData \<Rightarrow> (py_error + QueryConstraint list) option" where
  "parse_structured_query self query_type_str params input_data =
     (case QueryType_of_value query_type_str of
        None \<Rightarrow> Some (Inl (ValueError (''Unknown query type: '' @ query_type_str)))
      | Some qtype \<Rightarrow>
        if qtype = ENFORCE_TIME_SLOT then
          Some (Inr [(QueryConstraint_init qtype)\<lparr>course_id := p_course_id params, week := p_week params,
                       day := p_day params, period_start := p_period_start params\<rparr>])
        else if qtype = VETO_DAY then
          (if truthy (p_course_id params) then
             Some (Inr [(QueryConstraint_init qtype)\<lparr>course_id := p_course_id params, day := p_day params\<rparr>])
           else if truthy (p_instructor_id params) then
             (let cs = courses_of_instructor input_data (p_instructor_id params) in
              if cs = [] then
                Some (Inl (ValueError (''No courses found for instructor '' @ fmt_str (p_instructor_id params))))
              else Some (day_constraints qtype (p_day params) cs))
           else Some (Inl (ValueError ''Either course_id or instructor_id required for veto_day'')))
        else if qtype = ENFORCE_NO_LUNCH then
          (let tc = get_default (term_config input_data) empty_term_config in
           case get_lunch_periods self tc of
             None \<Rightarrow> None
           | Some (Inl e) \<Rightarrow> Some (Inl e)
           | Some (Inr lunch_periods) \<Rightarrow>
               if \<not> truthy (p_course_id params) then
                 Some (Inl (ValueError ''course_id required for enforce_no_lunch''))
               else Some (Inr (lunch_constraints (p_course_id params) (get_default (days tc) []) lunch_periods)))
        else if qtype = VETO_TIME_SLOT then
          Some (Inr [(QueryConstraint_init qtype)\<lparr>course_id := p_course_id params, week := p_week params,
                       day := p_day params, period_start := p_period_start params\<rparr>])
        else if qtype = ENFORCE_ROOM then
          Some (Inr [(QueryConstraint_init qtype)\<lparr>course_id := p_course_id params, room_id := p_room_id params\<rparr>])
        else if qtype = ENFORCE_BEFORE_TIME then
          Some (Inr [(QueryConstraint_init qtype)\<lparr>course_id := p_course_id params,
                       period_end := p_period_before params\<rparr>])
        else if qtype = ENFORCE_AFTER_TIME then
          Some (Inr [(QueryConstraint_init qtype)\<lparr>course_id := p_course_id params,
                       period_start := p_period_after params\<rparr>])
        else if qtype = SWAP_TIME_SLOTS then
          (let c1 = p_course_id_1 params; c2 = p_course_id_2 params in
           if \<not> truthy c1 \<or> \<not> truthy c2 then
             Some (Inl (ValueError ''Both course_id_1 and course_id_2 required for swap''))
           else
             (let current_schedule = get_default (p_current_schedule params) empty_schedule;
                  c1_assignment = find_assignment self c1 current_schedule;
                  c2_assignment = find_assignment self c2 current_schedule
              in case (c1_assignment, c2_assignment) of
                   (Some a1, Some a2) \<Rightarrow>
                     (case assignment_slot a2 of Inl e \<Rightarrow> Some (Inl e)
                      | Inr slot2 \<Rightarrow>
                         (case assignment_slot a1 of Inl e \<Rightarrow> Some (Inl e)
                          | Inr slot1 \<Rightarrow>
                             Some (Inr [slot_constraint ENFORCE_TIME_SLOT c1 slot2,
                                        slot_constraint VETO_TIME_SLOT c1 slot1,
                                        slot_constraint ENFORCE_TIME_SLOT c2 slot1,
                                        slot_constraint VETO_TIME_SLOT c2 slot2])))
                 | _ \<Rightarrow> Some (Inl (ValueError ''Cannot find current assignments for swap''))))
        else if qtype = VETO_INSTRUCTOR_DAY then
          (if \<not> truthy (p_instructor_id params) \<or> \<not> truthy (p_day params) then
             Some (Inl (ValueError ''instructor_id and day required''))
           else Some (day_constraints VETO_DAY (p_day params)
                        (courses_of_instructor input_data (p_instructor_id params))))
        else Some (Inr []))"

section \<open>The constraint validator\<close>

type_synonym slot_key = "string option \<times> int option \<times> string option \<times> int option"

definition constraint_key :: "QueryConstraint \<Rightarrow> slot_key" where
  "constraint_key c = (course_id c, week c, day c, period_start c)"

text \<open>
  The two dictionaries keyed by slot. A Python dictionary keeps its keys in the order of
  their first insertion and a later store under the same key replaces the value in place,
  which is what \<open>AList.update\<close> does on an association list.
\<close>

fun collect_slots ::
  "QueryConstraint list \<Rightarrow> (slot_key \<times> QueryConstraint) list \<times> (slot_key \<times> QueryConstraint) list
     \<Rightarrow> (slot_key \<times> QueryConstraint) list \<times> (slot_key \<times> QueryConstraint) list" where
  "collect_slots [] (enforce_slots, veto_slots) = (enforce_slots, veto_slots)"
| "collect_slots (c # cs) (enforce_slots, veto_slots) =
     (let key = constraint_key c in
      if query_type c = ENFORCE_TIME_SLOT \<or> query_type c = ENFORCE_DAY then
        collect_slots cs (AList.update key c enforce_slots, veto_slots)
      else if query_type c = VETO_TIME_SLOT \<or> query_type c = VETO_DAY then
        collect_slots cs (enforce_slots, AList.update key c veto_slots)
      else collect_slots cs (enforce_slots, veto_slots))"

definition contradiction_error :: "slot_key \<Rightarrow> string" where
  "contradiction_error key =
     (case key of (c, w, d, p) \<Rightarrow>
        ''Contradictory constraints: Cannot both enforce and veto '' @ fmt_str c
          @ '' on '' @ fmt_str d @ '' at period '' @ fmt_int p)"

text \<open>\<^verbatim>\<open>for key in enforce_slots: if key in veto_slots: errors.append(...)\<close>\<close>

definition conflict_errors ::
  "(slot_key \<times> QueryConstraint) list \<Rightarrow> (slot_key \<times> QueryConstraint) list \<Rightarrow> string list" where
  "conflict_errors enforce_slots veto_slots =
     map contradiction_error (filter (\<lambda>key. map_of veto_slots key \<noteq> None) (map fst enforce_slots))"

text \<open>\<^verbatim>\<open>{c["id"] for c in ...}\<close>: a course or an instructor without \<^verbatim>\<open>id\<close> raises.\<close>

fun course_id_set :: "Course list \<Rightarrow> py_error + string set" where
  "course_id_set [] = Inr {}"
| "course_id_set (c # cs) =
     (case index_key ''id'' (c_id c) of Inl e \<Rightarrow> Inl e
      | Inr i \<Rightarrow> (case course_id_set cs of Inl e \<Rightarrow> Inl e | Inr ids \<Rightarrow> Inr (insert i ids)))"

fun instructor_id_set :: "Instructor list \<Rightarrow> py_error + string set" where
  "instructor_id_set [] = Inr {}"
| "instructor_id_set (i # is) =
     (case index_key ''id'' (i_id i) of Inl e \<Rightarrow> Inl e
      | Inr x \<Rightarrow> (case instructor_id_set is of Inl e \<Rightarrow> Inl e | Inr ids \<Rightarrow> Inr (insert x ids)))"

text \<open>\<^verbatim>\<open>v and v not in ids\<close>\<close>

definition unknown_ref :: "string option \<Rightarrow> string set \<Rightarrow> bool" where
  "unknown_ref v ids = (case v of None \<Rightarrow> False | Some s \<Rightarrow> s \<noteq> [] \<and> s \<notin> ids)"

fun reference_errors :: "string set \<Rightarrow> string set \<Rightarrow> QueryConstraint list \<Rightarrow> string list" where
  "reference_errors valid_course_ids valid_instructor_ids [] = []"
| "reference_errors valid_course_ids valid_instructor_ids (c # cs) =
     (if unknown_ref (course_id c) valid_course_ids
      then [''Unknown course ID: '' @ fmt_str (course_id c)] else [])
     @ (if unknown_ref (instructor_id c) valid_instructor_ids
        then [''Unknown instructor ID: '' @ fmt_str (instructor_id c)] else [])
     @ reference_errors valid_course_ids valid_instructor_ids cs"

definition validate_query_constraints ::
  "QueryConstraint list \<Rightarrow> InputData \<Rightarrow> py_error + (bool \<times> string list)" where
  "validate_query_constraints constraints input_data =
     (case collect_slots constraints ([], []) of (enforce_slots, veto_slots) \<Rightarrow>
        (let errors = conflict_errors enforce_slots veto_slots in
         case course_id_set (get_default (courses input_data) []) of Inl e \<Rightarrow> Inl e
         | Inr valid_course_ids \<Rightarrow>
            (case instructor_id_set (get_default (instructors input_data) []) of Inl e \<Rightarrow> Inl e
             | Inr valid_instructor_ids \<Rightarrow>
                (let errors' = errors @ reference_errors valid_course_ids valid_instructor_ids constraints
                 in Inr (length errors' = 0, errors')))))"

section \<open>The what-if call of the solver interface\<close>

text \<open>
  The result that \<^verbatim>\<open>solve_what_if\<close> hands to its caller is a Python value made of
  dictionaries with string keys, lists and scalars; \<open>'f\<close> is the type of its floating-point
  numbers, on which this code does no arithmetic.
\<close>

datatype 'f json =
    JNull | JBool bool | JInt int | JFloat 'f | JStr string
  | JList "'f json list" | JDict "(string \<times> 'f json) list"

text \<open>\<^verbatim>\<open>type(v).__name__\<close>, for the messages of Python's own errors.\<close>

fun type_name :: "'f json \<Rightarrow> string" where
  "type_name JNull = ''NoneType''"
| "type_name (JBool _) = ''bool''"
| "type_name (JInt _) = ''int''"
| "type_name (JFloat _) = ''float''"
| "type_name (JStr _) = ''str''"
| "type_name (JList _) = ''list''"
| "type_name (JDict _) = ''dict''"

text \<open>\<^verbatim>\<open>len(v)\<close>: a length, or the text of the \<^verbatim>\<open>TypeError\<close>.\<close>

fun py_len :: "'f json \<Rightarrow> string + nat" where
  "py_len (JStr s) = Inr (length s)"
| "py_len (JList xs) = Inr (length xs)"
| "py_len (JDict kvs) = Inr (length kvs)"
| "py_len v = Inl (''object of type '' @ [CHR 0x27] @ type_name v @ [CHR 0x27] @ '' has no len()'')"

text \<open>
  What the Julia bridge returns, before conversion: \<^verbatim>\<open>None\<close>, a scalar, a dictionary whose
  keys need not be strings (here: strings and integers), a list, a tuple, a numpy array
  (given by the value of its \<^verbatim>\<open>tolist()\<close>), an object with a \<^verbatim>\<open>__dict__\<close> (given by its
  attributes), or a wrapper without \<^verbatim>\<open>__dict__\<close> that has an attribute \<^verbatim>\<open>value\<close>.
\<close>

datatype jkey = KStr string | KInt int

datatype 'f jl =
    JlNone | JlBool bool | JlInt int | JlFloat 'f | JlStr string
  | JlDict "(jkey \<times> 'f jl) list"
  | JlList "'f jl list"
  | JlTuple "'f jl list"
  | JlArray "'f json"
  | JlObject "(string \<times> 'f jl) list"
  | JlValue "'f jl"

text \<open>\<^verbatim>\<open>str(k)\<close> of a key.\<close>

fun str_key :: "jkey \<Rightarrow> string" where
  "str_key (KStr s) = s"
| "str_key (KInt i) = str_int i"

text \<open>
  A dictionary comprehension stores its items in order: an item whose key is already there
  replaces the value and keeps the place of the key.
\<close>

definition dict_of_items :: "(string \<times> 'a) list \<Rightarrow> (string \<times> 'a) list" where
  "dict_of_items items = foldl (\<lambda>d kv. AList.update (fst kv) (snd kv) d) [] items"

text \<open>
  \<^verbatim>\<open>_julia_to_python\<close>, in the order of its tests: \<^verbatim>\<open>None\<close>; a dictionary, rebuilt under
  \<^verbatim>\<open>str(k)\<close> with its values converted; a list or a tuple, rebuilt as a list with its
  members converted; a numpy array, by \<^verbatim>\<open>tolist()\<close>; an object with \<^verbatim>\<open>__dict__\<close>, as the
  dictionary of its converted attributes; a wrapper, by the conversion of its \<^verbatim>\<open>value\<close>;
  anything else as it is.
\<close>

fun julia_to_python :: "'f jl \<Rightarrow> 'f json" where
  "julia_to_python JlNone = JNull"
| "julia_to_python (JlDict kvs) =
     JDict (dict_of_items (map (\<lambda>kv. (str_key (fst kv), julia_to_python (snd kv))) kvs))"
| "julia_to_python (JlList xs) = JList (map julia_to_python xs)"
| "julia_to_python (JlTuple xs) = JList (map julia_to_python xs)"
| "julia_to_python (JlArray v) = v"
| "julia_to_python (JlObject kvs) =
     JDict (dict_of_items (map (\<lambda>kv. (fst kv, julia_to_python (snd kv))) kvs))"
| "julia_to_python (JlValue v) = julia_to_python v"
| "julia_to_python (JlBool b) = JBool b"
| "julia_to_python (JlInt i) = JInt i"
| "julia_to_python (JlFloat x) = JFloat x"
| "julia_to_python (JlStr s) = JStr s"

text \<open>
  The solver object: the mode flag, and the Julia function \<^verbatim>\<open>solve_what_if_query\<close>, which
  returns a payload or raises; \<open>Inl\<close> carries \<^verbatim>\<open>str(e)\<close> of what it raised.
\<close>

record ('i, 'c, 'o, 'f) SolverInterface =
  use_julia_solver :: bool
  julia_solve_what_if_query :: "'i \<times> 'c list \<times> 'o \<Rightarrow> string + 'f jl"

text \<open>The result of the \<^verbatim>\<open>except\<close> branch; \<open>tb\<close> is the text of \<^verbatim>\<open>traceback.format_exc()\<close>.\<close>

definition what_if_error :: "string \<Rightarrow> string \<Rightarrow> 'f json" where
  "what_if_error error_msg tb =
     JDict [(''status'', JStr ''error''),
            (''query_feasible'', JBool False),
            (''explanation'', JStr (''What-if analysis error: '' @ error_msg)),
            (''diagnostics'', JDict [(''error'', JStr error_msg), (''traceback'', JStr tb)])]"

definition no_attribute_get :: "'f json \<Rightarrow> string" where
  "no_attribute_get v =
     [CHR 0x27] @ type_name v @ [CHR 0x27] @ '' object has no attribute '' @ [CHR 0x27] @ ''get'' @ [CHR 0x27]"

text \<open>
  \<^verbatim>\<open>_solve_what_if_julia\<close>. The second component of the result is the list of calls made to
  the Julia function, in order. Whatever is raised inside the \<^verbatim>\<open>try\<close> (by the solver, by
  \<^verbatim>\<open>.get\<close> on a payload that is no dictionary, by \<^verbatim>\<open>len\<close> of an \<^verbatim>\<open>iis\<close> without a
  length) ends in the \<^verbatim>\<open>except\<close> branch. Printing is not modelled.
\<close>

definition solve_what_if_julia ::
  "('i, 'c, 'o, 'f) SolverInterface \<Rightarrow> string \<Rightarrow> 'i \<Rightarrow> 'c list \<Rightarrow> 'o
     \<Rightarrow> 'f json \<times> ('i \<times> 'c list \<times> 'o) list" where
  "solve_what_if_julia self tb input_json query_constraints original_objective =
     (let julia_query_constraints = map (\<lambda>qc. qc) query_constraints;
          call = (input_json, julia_query_constraints, original_objective)
      in ((case julia_solve_what_if_query self call of
            Inl error_msg \<Rightarrow> what_if_error error_msg tb
          | Inr result \<Rightarrow>
              (let python_result = julia_to_python result in
               case python_result of
                 JDict kvs \<Rightarrow>
                   (let status = get_default (map_of kvs ''status'') (JStr ''unknown'') in
                    if status = JStr ''feasible_query'' then python_result
                    else if status = JStr ''infeasible_query'' then
                      (case py_len (get_default (map_of kvs ''iis'') (JList [])) of
                         Inl error_msg \<Rightarrow> what_if_error error_msg tb
                       | Inr iis_count \<Rightarrow> python_result)
                    else python_result)
               | _ \<Rightarrow> what_if_error (no_attribute_get python_result) tb)),
          [call]))"

definition solve_what_if ::
  "('i, 'c, 'o, 'f) SolverInterface \<Rightarrow> string \<Rightarrow> 'i \<Rightarrow> 'c list \<Rightarrow> 'o
     \<Rightarrow> 'f json \<times> ('i \<times> 'c list \<times> 'o) list" where
  "solve_what_if self tb input_json query_constraints original_objective =
     (if use_julia_solver self then
        solve_what_if_julia self tb input_json query_constraints original_objective
      else
        (JDict [(''status'', JStr ''not_supported''),
                (''query_feasible'', JBool False),
                (''explanation'', JStr ''What-if analysis not supported in mock mode'')],
         []))"

text \<open>\<^verbatim>\<open>result.get("status")\<close> of a result, as the callers read it.\<close>

definition result_status :: "'f json \<Rightarrow> 'f json option" where
  "result_status r = (case r of JDict kvs \<Rightarrow> map_of kvs ''status'' | _ \<Rightarrow> None)"

text \<open>
  For the statements: a Python value as the bridge may hand it over already (dictionaries
  with string keys, lists, scalars), and the property of a Python value that no dictionary
  in it has a key twice.
\<close>

fun jl_of_json :: "'f json \<Rightarrow> 'f jl" where
  "jl_of_json JNull = JlNone"
| "jl_of_json (JBool b) = JlBool b"
| "jl_of_json (JInt i) = JlInt i"
| "jl_of_json (JFloat x) = JlFloat x"
| "jl_of_json (JStr s) = JlStr s"
| "jl_of_json (JList xs) = JlList (map jl_of_json xs)"
| "jl_of_json (JDict kvs) = JlDict (map (\<lambda>kv. (KStr (fst kv), jl_of_json (snd kv))) kvs)"

fun distinct_keys :: "'f json \<Rightarrow> bool" where
  "distinct_keys (JDict kvs) = (distinct (map fst kvs) \<and> (\<forall>kv \<in> set kvs. distinct_keys (snd kv)))"
| "distinct_keys (JList xs) = (\<forall>x \<in> set xs. distinct_keys x)"
| "distinct_keys v = True"

section \<open>The graph of reasons\<close>

text \<open>
  A constraint record of the irreducible infeasible set, as the solver reports it; each of
  its four keys may be absent. Characters are code points below 256.
\<close>

record IISConstraint =
  iis_id :: "string option"
  iis_type :: "string option"
  iis_description :: "string option"
  iis_in_iis :: "bool option"

record Reason =
  r_id :: string
  r_type :: string
  r_text :: string
  r_in_iis :: bool

record Edge =
  e_from :: string
  e_to :: string
  e_relationship :: string

record VisNode =
  n_id :: string
  n_label :: string
  n_type :: string
  n_group :: string

record VisEdge =
  v_source :: string
  v_target :: string
  v_label :: string

record Visualization =
  v_nodes :: "VisNode list"
  v_edges :: "VisEdge list"

record ReasonGraph =
  g_query :: string
  g_reasons :: "Reason list"
  g_edges :: "Edge list"
  g_num_reasons :: nat
  g_is_connected :: bool
  g_visualization_data :: Visualization

text \<open>
  \<^verbatim>\<open>s.lower()\<close>: a capital letter of ASCII becomes its small letter, a capital letter of
  Latin-1 (192 to 222, but not the multiplication sign 215) moves up by 32, every other
  character stays.
\<close>

definition lower_char :: "char \<Rightarrow> char" where
  "lower_char c =
     (case map_of (zip ''ABCDEFGHIJKLMNOPQRSTUVWXYZ'' ''abcdefghijklmnopqrstuvwxyz'') c of
        Some l \<Rightarrow> l
      | None \<Rightarrow>
          (let n = (of_char c :: nat) in
           if 192 \<le> n \<and> n \<le> 222 \<and> n \<noteq> 215 then char_of (n + 32) else c))"

definition py_lower :: "string \<Rightarrow> string" where
  "py_lower s = map lower_char s"

text \<open>\<^verbatim>\<open>keyword in text\<close>: the keyword occurs somewhere in the text.\<close>

fun py_in :: "string \<Rightarrow> string \<Rightarrow> bool" where
  "py_in kw [] = (kw = [])"
| "py_in kw (c # cs) = (prefix kw (c # cs) \<or> py_in kw cs)"

definition common_keywords :: "string list" where
  "common_keywords = [''course'', ''instructor'', ''room'', ''time'', ''week'', ''day'']"

text \<open>The loop over the keywords of \<^verbatim>\<open>_constraints_share_scope\<close>, leaving at the first hit.\<close>

fun share_loop :: "string list \<Rightarrow> string \<Rightarrow> string \<Rightarrow> bool" where
  "share_loop [] desc1 desc2 = False"
| "share_loop (keyword # rest) desc1 desc2 =
     (if py_in keyword desc1 \<and> py_in keyword desc2 then True else share_loop rest desc1 desc2)"

definition constraints_share_scope :: "IISConstraint \<Rightarrow> IISConstraint \<Rightarrow> bool" where
  "constraints_share_scope c1 c2 =
     (let desc1 = py_lower (get_default (iis_description c1) []);
          desc2 = py_lower (get_default (iis_description c2) [])
      in share_loop common_keywords desc1 desc2)"

definition constraint_to_reason :: "IISConstraint \<Rightarrow> 'ctx \<Rightarrow> string" where
  "constraint_to_reason constraint input_context =
     (let constraint_type = get_default (iis_type constraint) [];
          description = get_default (iis_description constraint) []
      in if constraint_type = ''minimality'' then
           ''The new schedule must achieve at least the same objective value as the original optimal schedule''
         else if prefix ''query_'' constraint_type then ''Your requested change: '' @ description
         else if constraint_type = ''enforce_time_slot'' then ''Required: '' @ description
         else if constraint_type = ''veto_time_slot'' then ''Forbidden: '' @ description
         else if constraint_type = ''veto_day'' then ''Cannot schedule on requested day: '' @ description
         else description)"

text \<open>\<^verbatim>\<open>constraint.get("id", f"c{i}")\<close>\<close>

definition id_or_index :: "IISConstraint \<Rightarrow> nat \<Rightarrow> string" where
  "id_or_index constraint i = get_default (iis_id constraint) (''c'' @ str_nat i)"

definition reason_of :: "nat \<Rightarrow> IISConstraint \<Rightarrow> 'ctx \<Rightarrow> Reason" where
  "reason_of i constraint input_context =
     \<lparr>r_id = id_or_index constraint i,
      r_type = get_default (iis_type constraint) ''unknown'',
      r_text = constraint_to_reason constraint input_context,
      r_in_iis = get_default (iis_in_iis constraint) True\<rparr>"

text \<open>
  The inner loop \<^verbatim>\<open>for j, other_constraint in enumerate(iis_constraints[i+1:], start=i+1)\<close>:
  \<open>j\<close> is the index of the head of the list that is left.
\<close>

fun edges_from :: "string \<Rightarrow> IISConstraint \<Rightarrow> nat \<Rightarrow> IISConstraint list \<Rightarrow> Edge list" where
  "edges_from constraint_id constraint j [] = []"
| "edges_from constraint_id constraint j (other_constraint # rest) =
     (if constraints_share_scope constraint other_constraint
      then [\<lparr>e_from = constraint_id, e_to = id_or_index other_constraint j,
              e_relationship = ''shares_variables''\<rparr>]
      else [])
     @ edges_from constraint_id constraint (j + 1) rest"

text \<open>
  The outer loop \<^verbatim>\<open>for i, constraint in enumerate(iis_constraints)\<close>, on the records from
  index \<open>i\<close> on: the reasons and the edges it appends, each in order.
\<close>

fun build_loop :: "nat \<Rightarrow> IISConstraint list \<Rightarrow> 'ctx \<Rightarrow> Reason list \<times> Edge list" where
  "build_loop i [] input_context = ([], [])"
| "build_loop i (constraint # rest) input_context =
     (case build_loop (i + 1) rest input_context of (reasons, edges) \<Rightarrow>
        (reason_of i constraint input_context # reasons,
         edges_from (id_or_index constraint i) constraint (i + 1) rest @ edges))"

definition create_graph_visualization_json :: "Reason list \<Rightarrow> Edge list \<Rightarrow> Visualization" where
  "create_graph_visualization_json reasons edges =
     \<lparr>v_nodes = map (\<lambda>r. \<lparr>n_id = r_id r, n_label = r_text r, n_type = r_type r,
                            n_group = (if prefix ''query'' (r_type r) then ''query''
                                       else if r_type r = ''minimality'' then ''minimality''
                                       else ''constraint'')\<rparr>) reasons,
      v_edges = map (\<lambda>e. \<lparr>v_source = e_from e, v_target = e_to e, v_label = e_relationship e\<rparr>) edges\<rparr>"

definition build_graph_of_reasons :: "IISConstraint list \<Rightarrow> string \<Rightarrow> 'ctx \<Rightarrow> ReasonGraph" where
  "build_graph_of_reasons iis_constraints query input_context =
     (case build_loop 0 iis_constraints input_context of (reasons, edges) \<Rightarrow>
        \<lparr>g_query = query, g_reasons = reasons, g_edges = edges,
         g_num_reasons = length reasons, g_is_connected = (length edges > 0),
         g_visualization_data = create_graph_visualization_json reasons edges\<rparr>)"

section \<open>Notions for the statements, and concrete inputs\<close>

text \<open>The empty parameter dictionary \<^verbatim>\<open>{}\<close>.\<close>

definition empty_params :: Params where
  "empty_params =
     \<lparr>p_course_id = None, p_instructor_id = None, p_week = None, p_day = None,
      p_period_start = None, p_room_id = None, p_period_before = None, p_period_after = None,
      p_course_id_1 = None, p_course_id_2 = None, p_current_schedule = None\<rparr>"

text \<open>
  A small instance: two courses of \<^verbatim>\<open>Prof_A\<close>, one of \<^verbatim>\<open>Prof_B\<close>, a two-day term with
  the default times.
\<close>

definition demo_input_data :: InputData where
  "demo_input_data =
     \<lparr>courses = Some [\<lparr>c_id = Some ''MSE252'', c_instructor_id = Some ''Prof_A''\<rparr>,
                      \<lparr>c_id = Some ''MSE211'', c_instructor_id = Some ''Prof_B''\<rparr>,
                      \<lparr>c_id = Some ''MSE300'', c_instructor_id = Some ''Prof_A''\<rparr>],
      instructors = Some [\<lparr>i_id = Some ''Prof_A''\<rparr>, \<lparr>i_id = Some ''Prof_B''\<rparr>],
      term_config = Some (empty_term_config\<lparr>days := Some [''Mon'', ''Tue'']\<rparr>)\<rparr>"

text \<open>A current schedule with one assignment for each of two courses.\<close>

definition demo_schedule :: Schedule where
  "demo_schedule =
     \<lparr>assignments = Some
        [\<lparr>a_course_id = Some ''MSE252'', a_week = Some 3, a_day = Some ''Tue'', a_period_start = Some 4\<rparr>,
         \<lparr>a_course_id = Some ''MSE211'', a_week = Some 1, a_day = Some ''Mon'', a_period_start = Some 2\<rparr>]\<rparr>"

text \<open>
  The list of assignments that a swap query reads: \<^verbatim>\<open>params.get("current_schedule", {})\<close>,
  then \<^verbatim>\<open>.get("assignments", [])\<close>.
\<close>

definition current_assignments :: "Params \<Rightarrow> Assignment list" where
  "current_assignments params =
     get_default (assignments (get_default (p_current_schedule params) empty_schedule)) []"

text \<open>Swap queries on the small schedule: both courses assigned, and one course not assigned.\<close>

definition swap_params :: Params where
  "swap_params =
     empty_params\<lparr>p_course_id_1 := Some ''MSE252'', p_course_id_2 := Some ''MSE211'',
                   p_current_schedule := Some demo_schedule\<rparr>"

definition swap_params_unassigned :: Params where
  "swap_params_unassigned =
     empty_params\<lparr>p_course_id_1 := Some ''MSE252'', p_course_id_2 := Some ''MSE300'',
                   p_current_schedule := Some demo_schedule\<rparr>"

text \<open>
  Following the claim's words: the half-open minute intervals \<open>[a, a')\<close> and \<open>[b, b')\<close>
  overlap strictly.
\<close>

definition overlaps :: "int \<Rightarrow> int \<Rightarrow> int \<Rightarrow> int \<Rightarrow> bool" where
  "overlaps a a' b b' = (a < b' \<and> b < a')"

text \<open>A no-lunch query for one course of the small instance.\<close>

definition no_lunch_params :: Params where
  "no_lunch_params = empty_params\<lparr>p_course_id := Some ''MSE252''\<rparr>"

definition veto_slot :: "string \<Rightarrow> string \<Rightarrow> int \<Rightarrow> QueryConstraint" where
  "veto_slot c d p =
     \<lparr>query_type = VETO_TIME_SLOT, course_id = Some c, instructor_id = None, week = None,
      day = Some d, period_start = Some p, period_end = None, room_id = None,
      course_id_2 = None, extra_params = []\<rparr>"

text \<open>The term configuration of the claim: day from 08:00, periods of 30 minutes, lunch 12:00 to 12:30.\<close>

definition lunch_term_config :: TermConfig where
  "lunch_term_config =
     \<lparr>day_start_time = Some ''08:00'', lunch_start_time = Some ''12:00'',
      lunch_end_time = Some ''12:30'', period_length_minutes = Some 30,
      days = Some [''Mon'', ''Tue'']\<rparr>"

definition lunch_input_data :: InputData where
  "lunch_input_data = demo_input_data\<lparr>term_config := Some lunch_term_config\<rparr>"

text \<open>
  Constraint sequences for the validator: an enforce and a veto of one course at the same
  week, day and period, and a constraint on a course and an instructor that the small
  instance does not have.
\<close>

definition slot_c :: "QueryType \<Rightarrow> string \<Rightarrow> int \<Rightarrow> string \<Rightarrow> int \<Rightarrow> QueryConstraint" where
  "slot_c q c w d p =
     \<lparr>query_type = q, course_id = Some c, instructor_id = None, week = Some w,
      day = Some d, period_start = Some p, period_end = None, room_id = None,
      course_id_2 = None, extra_params = []\<rparr>"

definition same_week_pair :: "QueryConstraint list" where
  "same_week_pair =
     [slot_c ENFORCE_TIME_SLOT ''MSE252'' 1 ''Mon'' 3, slot_c VETO_TIME_SLOT ''MSE252'' 1 ''Mon'' 3]"

definition unknown_refs :: "QueryConstraint list" where
  "unknown_refs =
     [(QueryConstraint_init VETO_DAY)\<lparr>course_id := Some ''does-not-exist'',
         instructor_id := Some ''Prof_Z'', day := Some ''Mon''\<rparr>]"

text \<open>
  Solvers for the what-if call: one that raises, one that stops at its time limit and says
  so in its status, and one that reports an infeasible query with its irreducible set in a
  tuple; and what the last two payloads are after conversion.
\<close>

definition raising_oracle :: "InputData \<times> QueryConstraint list \<times> int \<Rightarrow> string + int jl" where
  "raising_oracle call = Inl ''JULIA: UndefVarError: solve_what_if_query not defined''"

definition time_limit_payload :: "int jl" where
  "time_limit_payload =
     JlDict [(KStr ''status'', JlStr ''time_limit''), (KStr ''query_feasible'', JlBool False),
             (KStr ''explanation'', JlStr ''Solver stopped at its time limit'')]"

definition time_limit_result :: "int json" where
  "time_limit_result =
     JDict [(''status'', JStr ''time_limit''), (''query_feasible'', JBool False),
            (''explanation'', JStr ''Solver stopped at its time limit'')]"

definition time_limit_oracle :: "InputData \<times> QueryConstraint list \<times> int \<Rightarrow> string + int jl" where
  "time_limit_oracle call = Inr time_limit_payload"

definition infeasible_payload :: "int jl" where
  "infeasible_payload =
     JlDict [(KStr ''status'', JlStr ''infeasible_query''), (KStr ''query_feasible'', JlBool False),
             (KStr ''iis'',
                JlTuple [JlDict [(KStr ''id'', JlStr ''c1''), (KStr ''type'', JlStr ''minimality''),
                                 (KStr ''description'', JlStr ''obj<=100''),
                                 (KStr ''in_iis'', JlBool True)]])]"

definition infeasible_result :: "int json" where
  "infeasible_result =
     JDict [(''status'', JStr ''infeasible_query''), (''query_feasible'', JBool False),
            (''iis'', JList [JDict [(''id'', JStr ''c1''), (''type'', JStr ''minimality''),
                                    (''description'', JStr ''obj<=100''), (''in_iis'', JBool True)]])]"

definition infeasible_oracle :: "InputData \<times> QueryConstraint list \<times> int \<Rightarrow> string + int jl" where
  "infeasible_oracle call = Inr infeasible_payload"

definition julia_solver ::
  "(InputData \<times> QueryConstraint list \<times> int \<Rightarrow> string + int jl)
     \<Rightarrow> (InputData, QueryConstraint, int, int) SolverInterface" where
  "julia_solver oracle = \<lparr>use_julia_solver = True, julia_solve_what_if_query = oracle\<rparr>"

definition mock_solver ::
  "(InputData \<times> QueryConstraint list \<times> int \<Rightarrow> string + int jl)
     \<Rightarrow> (InputData, QueryConstraint, int, int) SolverInterface" where
  "mock_solver oracle = \<lparr>use_julia_solver = False, julia_solve_what_if_query = oracle\<rparr>"

text \<open>
  An irreducible infeasible set of three records: the minimality constraint, a query
  constraint, and a record that has only a description.
\<close>

definition demo_iis :: "IISConstraint list" where
  "demo_iis =
     [\<lparr>iis_id = Some ''c1'', iis_type = Some ''minimality'', iis_description = Some ''obj<=100'',
       iis_in_iis = Some True\<rparr>,
      \<lparr>iis_id = Some ''q1'', iis_type = Some ''query_enforce'',
       iis_description = Some ''course X on Monday period 3'', iis_in_iis = Some True\<rparr>,
      \<lparr>iis_id = None, iis_type = None, iis_description = Some ''Course Y needs a lab'',
       iis_in_iis = None\<rparr>]"

section \<open>Properties of the translator\<close>

lemma QueryType_of_value_value: "QueryType_of_value (QueryType_value q) = Some q"
  by (cases q) (simp_all add: QueryType_of_value_def QueryType_members_def)

lemmas QueryType_of_value_simps =
  QueryType_of_value_value [of ENFORCE_TIME_SLOT, simplified]
  QueryType_of_value_value [of ENFORCE_DAY, simplified]
  QueryType_of_value_value [of ENFORCE_ROOM, simplified]
  QueryType_of_value_value [of ENFORCE_BEFORE_TIME, simplified]
  QueryType_of_value_value [of ENFORCE_AFTER_TIME, simplified]
  QueryType_of_value_value [of ENFORCE_NO_LUNCH, simplified]
  QueryType_of_value_value [of ENFORCE_CONSECUTIVE, simplified]
  QueryType_of_value_value [of VETO_TIME_SLOT, simplified]
  QueryType_of_value_value [of VETO_DAY, simplified]
  QueryType_of_value_value [of VETO_ROOM, simplified]
  QueryType_of_value_value [of VETO_LUNCH, simplified]
  QueryType_of_value_value [of VETO_INSTRUCTOR_DAY, simplified]
  QueryType_of_value_value [of SWAP_TIME_SLOTS, simplified]
  QueryType_of_value_value [of SWAP_ROOMS, simplified]

lemma unhandled_kind:
  "q \<in> {ENFORCE_DAY, ENFORCE_CONSECUTIVE, VETO_ROOM, VETO_LUNCH, SWAP_ROOMS} \<Longrightarrow>
   parse_structured_query self (QueryType_value q) params input_data = Some (Inr [])"
  unfolding parse_structured_query_def QueryType_of_value_value
  by (elim insertE emptyE) simp_all

lemma get_lunch_periods_self: "get_lunch_periods t1 tc = get_lunch_periods t2 tc"
  by (simp add: get_lunch_periods_def)

lemma find_assignment_self: "find_assignment t1 cid s = find_assignment t2 cid s"
  by (simp add: find_assignment_def)

text \<open>
  C10. The kinds \<^verbatim>\<open>enforce_day\<close>, \<^verbatim>\<open>enforce_consecutive\<close>, \<^verbatim>\<open>veto_room\<close>, \<^verbatim>\<open>veto_lunch\<close>
  and \<^verbatim>\<open>swap_rooms\<close> are members of the enumeration, but no branch of the translator
  handles them: for any parameters and any instance the translation returns the empty
  list of constraints, and does not raise.
\<close>

theorem translate_unhandled_kinds_empty:
  "qt \<in> {''enforce_day'', ''enforce_consecutive'', ''veto_room'', ''veto_lunch'', ''swap_rooms''}
   \<Longrightarrow> QueryType_of_value qt \<noteq> None
       \<and> parse_structured_query self qt params input_data = Some (Inr [])"
proof -
  assume "qt \<in> {''enforce_day'', ''enforce_consecutive'', ''veto_room'', ''veto_lunch'', ''swap_rooms''}"
  then obtain q where q: "q \<in> {ENFORCE_DAY, ENFORCE_CONSECUTIVE, VETO_ROOM, VETO_LUNCH, SWAP_ROOMS}"
    and qt: "qt = QueryType_value q"
    by (elim insertE emptyE) (simp_all only: QueryType_value.simps [symmetric] insert_iff, blast+)
  show ?thesis
    unfolding qt using unhandled_kind [OF q] by (simp only: QueryType_of_value_value, simp)
qed

theorem translate_unhandled_kinds_empty_witness:
  "''veto_room'' \<in> {''enforce_day'', ''enforce_consecutive'', ''veto_room'', ''veto_lunch'', ''swap_rooms''}
   \<and> QueryType_of_value ''veto_room'' \<noteq> None
   \<and> parse_structured_query QueryTranslator_init ''veto_room''
        (empty_params\<lparr>p_course_id := Some ''MSE252'', p_room_id := Some ''Rm101''\<rparr>) demo_input_data
      = Some (Inr [])"
proof -
  have m: "''veto_room'' \<in> {''enforce_day'', ''enforce_consecutive'', ''veto_room'', ''veto_lunch'', ''swap_rooms''}"
    by simp
  from m translate_unhandled_kinds_empty [OF m] show ?thesis by blast
qed

text \<open>
  C8. Translation is deterministic: the result (the constraints in order, the error, or
  not returning) is a function of the query type, the parameters and the instance alone;
  the translator object on which the method is called has no part in it.
\<close>

theorem translate_deterministic:
  "parse_structured_query t1 query_type_str params input_data
   = parse_structured_query t2 query_type_str params input_data"
  unfolding parse_structured_query_def
  by (subst get_lunch_periods_self [of t1 _ t2], subst find_assignment_self [of t1 _ _ t2],
      subst find_assignment_self [of t1 _ _ t2], rule refl)

theorem translate_deterministic_witness:
  "parse_structured_query QueryTranslator_init ''veto_day''
     (empty_params\<lparr>p_instructor_id := Some ''Prof_A'', p_day := Some ''Mon''\<rparr>) demo_input_data
   = parse_structured_query \<lparr>query_patterns = []\<rparr> ''veto_day''
     (empty_params\<lparr>p_instructor_id := Some ''Prof_A'', p_day := Some ''Mon''\<rparr>) demo_input_data"
  by (rule translate_deterministic)

text \<open>
  C2 (the code departs from the claim). An \<^verbatim>\<open>enforce_time_slot\<close> query with the empty
  parameter dictionary is not refused: the translation returns one constraint all of whose
  fields are \<^verbatim>\<open>None\<close>.
\<close>

theorem enforce_time_slot_without_fields_accepted:
  "parse_structured_query QueryTranslator_init ''enforce_time_slot'' empty_params demo_input_data
   = Some (Inr [\<lparr>query_type = ENFORCE_TIME_SLOT, course_id = None, instructor_id = None,
                  week = None, day = None, period_start = None, period_end = None,
                  room_id = None, course_id_2 = None, extra_params = []\<rparr>])"
  by (simp add: parse_structured_query_def QueryType_of_value_simps
      empty_params_def QueryConstraint_init_def)

theorem enforce_time_slot_without_fields_accepted_witness:
  "\<exists>c. parse_structured_query QueryTranslator_init ''enforce_time_slot'' empty_params demo_input_data
        = Some (Inr [c])
      \<and> course_id c = None \<and> day c = None \<and> period_start c = None"
  using enforce_time_slot_without_fields_accepted by simp

text \<open>
  C6 (the code departs from the claim). A \<^verbatim>\<open>veto_instructor_day\<close> query for an
  instructor who teaches no course of the instance is not refused: the translation returns
  the empty list. The same instructor under \<^verbatim>\<open>veto_day\<close> is refused.
\<close>

theorem veto_instructor_day_no_courses_returns_empty:
  "parse_structured_query QueryTranslator_init ''veto_instructor_day''
     (empty_params\<lparr>p_instructor_id := Some ''Prof_X'', p_day := Some ''Mon''\<rparr>) demo_input_data
   = Some (Inr [])
   \<and> parse_structured_query QueryTranslator_init ''veto_day''
     (empty_params\<lparr>p_instructor_id := Some ''Prof_X'', p_day := Some ''Mon''\<rparr>) demo_input_data
   = Some (Inl (ValueError ''No courses found for instructor Prof_X''))"
  by (simp add: parse_structured_query_def QueryType_of_value_simps
      empty_params_def truthy_def courses_of_instructor_def demo_input_data_def get_default_def
      fmt_str_def)

theorem veto_instructor_day_no_courses_returns_empty_witness:
  "parse_structured_query QueryTranslator_init ''veto_instructor_day''
     (empty_params\<lparr>p_instructor_id := Some ''Prof_X'', p_day := Some ''Mon''\<rparr>) demo_input_data
   \<noteq> parse_structured_query QueryTranslator_init ''veto_day''
     (empty_params\<lparr>p_instructor_id := Some ''Prof_X'', p_day := Some ''Mon''\<rparr>) demo_input_data"
  using veto_instructor_day_no_courses_returns_empty by simp

lemma find_assignment_loop_find:
  "find_assignment_loop cid as = find (\<lambda>a. a_course_id a = cid) as"
  by (induction as) simp_all

lemma find_assignment_find:
  "find_assignment self cid (get_default (p_current_schedule params) empty_schedule)
   = find (\<lambda>a. a_course_id a = cid) (current_assignments params)"
  by (simp add: find_assignment_def current_assignments_def find_assignment_loop_find)

lemma swap_branch:
  "parse_structured_query self ''swap_time_slots'' params input_data =
     (let c1 = p_course_id_1 params; c2 = p_course_id_2 params in
           if \<not> truthy c1 \<or> \<not> truthy c2 then
             Some (Inl (ValueError ''Both course_id_1 and course_id_2 required for swap''))
           else
             (case (find (\<lambda>a. a_course_id a = c1) (current_assignments params),
                    find (\<lambda>a. a_course_id a = c2) (current_assignments params)) of
                   (Some a1, Some a2) \<Rightarrow>
                     (case assignment_slot a2 of Inl e \<Rightarrow> Some (Inl e)
                      | Inr slot2 \<Rightarrow>
                         (case assignment_slot a1 of Inl e \<Rightarrow> Some (Inl e)
                          | Inr slot1 \<Rightarrow>
                             Some (Inr [slot_constraint ENFORCE_TIME_SLOT c1 slot2,
                                        slot_constraint VETO_TIME_SLOT c1 slot1,
                                        slot_constraint ENFORCE_TIME_SLOT c2 slot1,
                                        slot_constraint VETO_TIME_SLOT c2 slot2])))
                 | _ \<Rightarrow> Some (Inl (ValueError ''Cannot find current assignments for swap''))))"
  unfolding parse_structured_query_def QueryType_of_value_simps
  by (simp add: find_assignment_find Let_def split: option.splits)

text \<open>
  C1. A \<^verbatim>\<open>swap_time_slots\<close> query with courses \<open>A\<close> and \<open>B\<close> (both given and not empty)
  reads the current slot of each from the schedule passed in the parameters: the first
  assignment of the course in its list. When both are there, carrying \<^verbatim>\<open>week\<close>, \<^verbatim>\<open>day\<close>
  and \<^verbatim>\<open>period_start\<close>, the translation is exactly four constraints in this order: enforce
  \<open>A\<close> into the slot of \<open>B\<close>, veto \<open>A\<close> from its own slot, enforce \<open>B\<close> into the slot of
  \<open>A\<close>, veto \<open>B\<close> from its own slot. When either course has no assignment, the translation
  raises \<^verbatim>\<open>ValueError("Cannot find current assignments for swap")\<close> and returns nothing.
\<close>

theorem swap_time_slots_four_constraints:
  assumes "p_course_id_1 params = Some A" and "A \<noteq> []"
    and "p_course_id_2 params = Some B" and "B \<noteq> []"
  shows "(find (\<lambda>a. a_course_id a = Some A) (current_assignments params) = Some a1
          \<and> find (\<lambda>a. a_course_id a = Some B) (current_assignments params) = Some a2
          \<and> a_week a1 = Some w1 \<and> a_day a1 = Some d1 \<and> a_period_start a1 = Some p1
          \<and> a_week a2 = Some w2 \<and> a_day a2 = Some d2 \<and> a_period_start a2 = Some p2
          \<longrightarrow> parse_structured_query self ''swap_time_slots'' params input_data
              = Some (Inr
                 [\<lparr>query_type = ENFORCE_TIME_SLOT, course_id = Some A, instructor_id = None,
                   week = Some w2, day = Some d2, period_start = Some p2, period_end = None,
                   room_id = None, course_id_2 = None, extra_params = []\<rparr>,
                  \<lparr>query_type = VETO_TIME_SLOT, course_id = Some A, instructor_id = None,
                   week = Some w1, day = Some d1, period_start = Some p1, period_end = None,
                   room_id = None, course_id_2 = None, extra_params = []\<rparr>,
                  \<lparr>query_type = ENFORCE_TIME_SLOT, course_id = Some B, instructor_id = None,
                   week = Some w1, day = Some d1, period_start = Some p1, period_end = None,
                   room_id = None, course_id_2 = None, extra_params = []\<rparr>,
                  \<lparr>query_type = VETO_TIME_SLOT, course_id = Some B, instructor_id = None,
                   week = Some w2, day = Some d2, period_start = Some p2, period_end = None,
                   room_id = None, course_id_2 = None, extra_params = []\<rparr>]))
       \<and> (find (\<lambda>a. a_course_id a = Some A) (current_assignments params) = None
          \<or> find (\<lambda>a. a_course_id a = Some B) (current_assignments params) = None
          \<longrightarrow> parse_structured_query self ''swap_time_slots'' params input_data
              = Some (Inl (ValueError ''Cannot find current assignments for swap'')))"
  using assms
  by (auto simp: swap_branch Let_def truthy_def assignment_slot_def index_key_def slot_constraint_def
      QueryConstraint_init_def split: option.splits)
theorem swap_time_slots_four_constraints_witness:
  "parse_structured_query QueryTranslator_init ''swap_time_slots'' swap_params demo_input_data
     = Some (Inr
         [\<lparr>query_type = ENFORCE_TIME_SLOT, course_id = Some ''MSE252'', instructor_id = None,
           week = Some 1, day = Some ''Mon'', period_start = Some 2, period_end = None,
           room_id = None, course_id_2 = None, extra_params = []\<rparr>,
          \<lparr>query_type = VETO_TIME_SLOT, course_id = Some ''MSE252'', instructor_id = None,
           week = Some 3, day = Some ''Tue'', period_start = Some 4, period_end = None,
           room_id = None, course_id_2 = None, extra_params = []\<rparr>,
          \<lparr>query_type = ENFORCE_TIME_SLOT, course_id = Some ''MSE211'', instructor_id = None,
           week = Some 3, day = Some ''Tue'', period_start = Some 4, period_end = None,
           room_id = None, course_id_2 = None, extra_params = []\<rparr>,
          \<lparr>query_type = VETO_TIME_SLOT, course_id = Some ''MSE211'', instructor_id = None,
           week = Some 1, day = Some ''Mon'', period_start = Some 2, period_end = None,
           room_id = None, course_id_2 = None, extra_params = []\<rparr>])
   \<and> parse_structured_query QueryTranslator_init ''swap_time_slots'' swap_params_unassigned demo_input_data
     = Some (Inl (ValueError ''Cannot find current assignments for swap''))"
proof -
  have a: "p_course_id_1 swap_params = Some ''MSE252''" "''MSE252'' \<noteq> []"
      "p_course_id_2 swap_params = Some ''MSE211''" "''MSE211'' \<noteq> []"
    by (simp_all add: swap_params_def empty_params_def)
  have b: "p_course_id_1 swap_params_unassigned = Some ''MSE252''" "''MSE252'' \<noteq> []"
      "p_course_id_2 swap_params_unassigned = Some ''MSE300''" "''MSE300'' \<noteq> []"
    by (simp_all add: swap_params_unassigned_def empty_params_def)
  have ca: "current_assignments swap_params = the (assignments demo_schedule)"
    by (simp add: current_assignments_def swap_params_def empty_params_def get_default_def
        demo_schedule_def)
  have cb: "current_assignments swap_params_unassigned = the (assignments demo_schedule)"
    by (simp add: current_assignments_def swap_params_unassigned_def empty_params_def
        get_default_def demo_schedule_def)
  note t1 = swap_time_slots_four_constraints [OF a, of
      "\<lparr>a_course_id = Some ''MSE252'', a_week = Some 3, a_day = Some ''Tue'', a_period_start = Some 4\<rparr>"
      "\<lparr>a_course_id = Some ''MSE211'', a_week = Some 1, a_day = Some ''Mon'', a_period_start = Some 2\<rparr>"
      3 "''Tue''" 4 1 "''Mon''" 2 QueryTranslator_init demo_input_data]
  note t2 = swap_time_slots_four_constraints [OF b, of _ _ _ _ _ _ _ _
      QueryTranslator_init demo_input_data]
  from t1 have r1: "parse_structured_query QueryTranslator_init ''swap_time_slots'' swap_params demo_input_data
     = Some (Inr
         [\<lparr>query_type = ENFORCE_TIME_SLOT, course_id = Some ''MSE252'', instructor_id = None,
           week = Some 1, day = Some ''Mon'', period_start = Some 2, period_end = None,
           room_id = None, course_id_2 = None, extra_params = []\<rparr>,
          \<lparr>query_type = VETO_TIME_SLOT, course_id = Some ''MSE252'', instructor_id = None,
           week = Some 3, day = Some ''Tue'', period_start = Some 4, period_end = None,
           room_id = None, course_id_2 = None, extra_params = []\<rparr>,
          \<lparr>query_type = ENFORCE_TIME_SLOT, course_id = Some ''MSE211'', instructor_id = None,
           week = Some 3, day = Some ''Tue'', period_start = Some 4, period_end = None,
           room_id = None, course_id_2 = None, extra_params = []\<rparr>,
          \<lparr>query_type = VETO_TIME_SLOT, course_id = Some ''MSE211'', instructor_id = None,
           week = Some 1, day = Some ''Mon'', period_start = Some 2, period_end = None,
           room_id = None, course_id_2 = None, extra_params = []\<rparr>])"
    by (simp add: ca demo_schedule_def)
  from t2 have r2: "parse_structured_query QueryTranslator_init ''swap_time_slots'' swap_params_unassigned demo_input_data
     = Some (Inl (ValueError ''Cannot find current assignments for swap''))"
    by (simp add: cb demo_schedule_def)
  from r1 r2 show ?thesis by (rule conjI)
qed

lemma lunch_loop_returns:
  assumes L: "0 < L"
  shows "\<exists>ps. lunch_loop L ls le t k acc = Some (acc @ ps) \<and> sorted_wrt (<) ps
           \<and> set ps = {i. k \<le> i \<and> t + (i - k) * L < le \<and> ls < t + (i - k) * L + L}"
proof (induction "nat (le - t)" arbitrary: t k acc rule: less_induct)
  case less
  show ?case
  proof (cases "t < le")
    case False
    have stop: "lunch_loop L ls le t k acc = Some acc"
      by (subst lunch_loop.simps) (simp add: False)
    have "\<not> (k \<le> i \<and> t + (i - k) * L < le \<and> ls < t + (i - k) * L + L)" for i
    proof
      assume a: "k \<le> i \<and> t + (i - k) * L < le \<and> ls < t + (i - k) * L + L"
      then have "0 \<le> (i - k) * L" using L by simp
      with a False show False by linarith
    qed
    then have "{i. k \<le> i \<and> t + (i - k) * L < le \<and> ls < t + (i - k) * L + L} = {}"
      by blast
    with stop show ?thesis by simp
  next
    case True
    define acc' where "acc' = (if t + L > ls \<and> t < le then acc @ [k] else acc)"
    have step: "lunch_loop L ls le t k acc = lunch_loop L ls le (t + L) (k + 1) acc'"
      by (subst lunch_loop.simps) (simp add: True Let_def acc'_def)
    have "nat (le - (t + L)) < nat (le - t)" using L True by linarith
    from less [OF this, of "k + 1" acc'] obtain ps where
      ps: "lunch_loop L ls le (t + L) (k + 1) acc' = Some (acc' @ ps)"
      and sorted: "sorted_wrt (<) ps"
      and set_ps: "set ps = {i. k + 1 \<le> i \<and> t + L + (i - (k + 1)) * L < le
                            \<and> ls < t + L + (i - (k + 1)) * L + L}"
      by blast
    have eq: "t + L + (i - (k + 1)) * L = t + (i - k) * L" for i
      by (simp add: algebra_simps)
    define qs where "qs = (if t + L > ls then [k] else []) @ ps"
    have app: "acc' @ ps = acc @ qs" using True by (simp add: qs_def acc'_def)
    have gt: "k < i" if "i \<in> set ps" for i using that set_ps by simp
    have sorted_qs: "sorted_wrt (<) qs" using sorted gt by (simp add: qs_def)
    have set_qs: "set qs = {i. k \<le> i \<and> t + (i - k) * L < le \<and> ls < t + (i - k) * L + L}"
    proof (rule set_eqI)
      fix i
      show "i \<in> set qs \<longleftrightarrow> i \<in> {i. k \<le> i \<and> t + (i - k) * L < le \<and> ls < t + (i - k) * L + L}"
      proof (cases "i = k")
        case True
        then show ?thesis using \<open>t < le\<close> gt by (auto simp: qs_def)
      next
        case False
        then have "k \<le> i \<longleftrightarrow> k + 1 \<le> i" by linarith
        with False show ?thesis by (simp add: qs_def set_ps eq)
      qed
    qed
    from step ps app sorted_qs set_qs show ?thesis by auto
  qed
qed

lemma overlaps_common_minute:
  "a < a' \<Longrightarrow> b < b' \<Longrightarrow>
   overlaps a a' b b' \<longleftrightarrow> (\<exists>m. a \<le> m \<and> m < a' \<and> b \<le> m \<and> m < b')"
  unfolding overlaps_def
proof
  assume "a < a'" "b < b'" "a < b' \<and> b < a'"
  then have "a \<le> max a b \<and> max a b < a' \<and> b \<le> max a b \<and> max a b < b'" by linarith
  then show "\<exists>m. a \<le> m \<and> m < a' \<and> b \<le> m \<and> m < b'" ..
next
  assume "\<exists>m. a \<le> m \<and> m < a' \<and> b \<le> m \<and> m < b'"
  then show "a < b' \<and> b < a'" by auto
qed

lemma get_lunch_periods_returns:
  assumes "parse_hm (get_default (day_start_time tc) ''08:00'') = Inr (sh, sm)"
    and "parse_hm (get_default (lunch_start_time tc) ''12:00'') = Inr (lh, lm)"
    and "parse_hm (get_default (lunch_end_time tc) ''12:30'') = Inr (eh, em)"
    and "0 < get_default (period_length_minutes tc) 30"
  shows "\<exists>ps. get_lunch_periods self tc = Some (Inr ps) \<and> sorted_wrt (<) ps
     \<and> set ps = {i. 0 \<le> i \<and>
          overlaps (sh * 60 + sm + i * get_default (period_length_minutes tc) 30)
                   (sh * 60 + sm + i * get_default (period_length_minutes tc) 30
                      + get_default (period_length_minutes tc) 30)
                   (lh * 60 + lm) (eh * 60 + em)}"
proof -
  from lunch_loop_returns [OF assms(4), of "lh * 60 + lm" "eh * 60 + em" "sh * 60 + sm" 0 "[]"]
  obtain ps where ps: "lunch_loop (get_default (period_length_minutes tc) 30) (lh * 60 + lm)
        (eh * 60 + em) (sh * 60 + sm) 0 [] = Some ps"
    and s: "sorted_wrt (<) ps"
    and e: "set ps = {i. 0 \<le> i \<and> sh * 60 + sm + (i - 0) * get_default (period_length_minutes tc) 30 < eh * 60 + em
        \<and> lh * 60 + lm < sh * 60 + sm + (i - 0) * get_default (period_length_minutes tc) 30
             + get_default (period_length_minutes tc) 30}"
    by auto
  have "get_lunch_periods self tc = Some (Inr ps)"
    by (simp add: get_lunch_periods_def assms(1-3) ps Let_def)
  with s e show ?thesis by (simp add: overlaps_def)
qed

lemma no_lunch_branch:
  "parse_structured_query self ''enforce_no_lunch'' params input_data =
     (let tc = get_default (term_config input_data) empty_term_config in
           case get_lunch_periods self tc of
             None \<Rightarrow> None
           | Some (Inl e) \<Rightarrow> Some (Inl e)
           | Some (Inr lunch_periods) \<Rightarrow>
               if \<not> truthy (p_course_id params) then
                 Some (Inl (ValueError ''course_id required for enforce_no_lunch''))
               else Some (Inr (lunch_constraints (p_course_id params) (get_default (days tc) []) lunch_periods)))"
  unfolding parse_structured_query_def QueryType_of_value_simps
  by simp

lemma lunch_constraints_veto_slot:
  "lunch_constraints (Some c) ds ps = concat (map (\<lambda>d. map (\<lambda>p. veto_slot c d p) ps) ds)"
  by (simp add: lunch_constraints_def veto_slot_def QueryConstraint_init_def)

text \<open>
  C4. An \<^verbatim>\<open>enforce_no_lunch\<close> query for a course \<open>c\<close>, on a term configuration whose three
  times read as hours and minutes and whose period length \<open>L\<close> is positive: the lunch
  periods are computed (the loop returns), they are in ascending order, and they are exactly
  the indices \<open>i \<ge> 0\<close> whose interval \<open>[start + i L, start + i L + L)\<close> overlaps
  \<open>[lunch_start, lunch_end)\<close>, in minutes; the translation is, for each day of the term in
  order, one \<^verbatim>\<open>veto_time_slot\<close> constraint of \<open>c\<close> per lunch period. With the day from 08:00,
  periods of 30 minutes and lunch from 12:00 to 12:30 the lunch periods are \<open>[8]\<close>: index 8
  is selected, index 7 is not.
\<close>

theorem enforce_no_lunch_expansion:
  assumes "p_course_id params = Some c" and "c \<noteq> []"
    and "tc = get_default (term_config input_data) empty_term_config"
    and "parse_hm (get_default (day_start_time tc) ''08:00'') = Inr (sh, sm)"
    and "parse_hm (get_default (lunch_start_time tc) ''12:00'') = Inr (lh, lm)"
    and "parse_hm (get_default (lunch_end_time tc) ''12:30'') = Inr (eh, em)"
    and "L = get_default (period_length_minutes tc) 30" and "0 < L"
  shows "(\<exists>ps. get_lunch_periods self tc = Some (Inr ps) \<and> sorted_wrt (<) ps
           \<and> set ps = {i. 0 \<le> i \<and> overlaps (sh * 60 + sm + i * L) (sh * 60 + sm + i * L + L)
                                           (lh * 60 + lm) (eh * 60 + em)}
           \<and> parse_structured_query self ''enforce_no_lunch'' params input_data
             = Some (Inr (concat (map (\<lambda>d. map (\<lambda>p. veto_slot c d p) ps) (get_default (days tc) [])))))
       \<and> get_lunch_periods self
            \<lparr>day_start_time = Some ''08:00'', lunch_start_time = Some ''12:00'',
             lunch_end_time = Some ''12:30'', period_length_minutes = Some 30, days = ds\<rparr>
          = Some (Inr [8])"
proof
  from assms(7,8) have pos: "0 < get_default (period_length_minutes tc) 30" by simp
  from get_lunch_periods_returns [OF assms(4-6) pos, of self] obtain ps where
    ps: "get_lunch_periods self tc = Some (Inr ps)" and s: "sorted_wrt (<) ps"
    and e: "set ps = {i. 0 \<le> i \<and> overlaps (sh * 60 + sm + i * L) (sh * 60 + sm + i * L + L)
                                           (lh * 60 + lm) (eh * 60 + em)}"
    unfolding assms(7) by blast
  have "parse_structured_query self ''enforce_no_lunch'' params input_data
        = Some (Inr (concat (map (\<lambda>d. map (\<lambda>p. veto_slot c d p) ps) (get_default (days tc) []))))"
    using assms(1,2) ps
    by (simp add: no_lunch_branch assms(3) [symmetric] truthy_def lunch_constraints_veto_slot)
  with ps s e show "\<exists>ps. get_lunch_periods self tc = Some (Inr ps) \<and> sorted_wrt (<) ps
           \<and> set ps = {i. 0 \<le> i \<and> overlaps (sh * 60 + sm + i * L) (sh * 60 + sm + i * L + L)
                                           (lh * 60 + lm) (eh * 60 + em)}
           \<and> parse_structured_query self ''enforce_no_lunch'' params input_data
             = Some (Inr (concat (map (\<lambda>d. map (\<lambda>p. veto_slot c d p) ps) (get_default (days tc) []))))"
    by blast
next
  show "get_lunch_periods self
            \<lparr>day_start_time = Some ''08:00'', lunch_start_time = Some ''12:00'',
             lunch_end_time = Some ''12:30'', period_length_minutes = Some 30, days = ds\<rparr>
          = Some (Inr [8])"
    by (simp add: get_lunch_periods_def get_default_def parse_hm_def py_int_def is_digit_def
        digits_value_def lunch_loop.simps)
qed

theorem enforce_no_lunch_expansion_witness:
  "p_course_id no_lunch_params = Some ''MSE252''
   \<and> parse_hm ''08:00'' = Inr (8, 0) \<and> parse_hm ''12:00'' = Inr (12, 0)
   \<and> parse_hm ''12:30'' = Inr (12, 30)
   \<and> get_lunch_periods QueryTranslator_init lunch_term_config = Some (Inr [8])
   \<and> {i. 0 \<le> i \<and> overlaps (8 * 60 + 0 + i * 30) (8 * 60 + 0 + i * 30 + 30)
                              (12 * 60 + 0) (12 * 60 + 30)} = {8}
   \<and> parse_structured_query QueryTranslator_init ''enforce_no_lunch'' no_lunch_params lunch_input_data
     = Some (Inr [veto_slot ''MSE252'' ''Mon'' 8, veto_slot ''MSE252'' ''Tue'' 8])"
proof -
  have c: "p_course_id no_lunch_params = Some ''MSE252''" "''MSE252'' \<noteq> []"
    by (simp_all add: no_lunch_params_def empty_params_def)
  have tc: "lunch_term_config = get_default (term_config lunch_input_data) empty_term_config"
    by (simp add: lunch_input_data_def get_default_def)
  have p1: "parse_hm (get_default (day_start_time lunch_term_config) ''08:00'') = Inr (8, 0)"
    and p2: "parse_hm (get_default (lunch_start_time lunch_term_config) ''12:00'') = Inr (12, 0)"
    and p3: "parse_hm (get_default (lunch_end_time lunch_term_config) ''12:30'') = Inr (12, 30)"
    by (simp_all add: lunch_term_config_def get_default_def parse_hm_def py_int_def is_digit_def
        digits_value_def)
  have l: "30 = get_default (period_length_minutes lunch_term_config) 30" "(0::int) < 30"
    by (simp_all add: lunch_term_config_def get_default_def)
  note t = enforce_no_lunch_expansion [OF c tc p1 p2 p3 l, of QueryTranslator_init "Some [''Mon'', ''Tue'']"]
  from t have g: "get_lunch_periods QueryTranslator_init lunch_term_config = Some (Inr [8])"
    by (simp add: lunch_term_config_def)
  from t obtain ps where ps: "get_lunch_periods QueryTranslator_init lunch_term_config = Some (Inr ps)"
    and s: "set ps = {i. 0 \<le> i \<and> overlaps (8 * 60 + 0 + i * 30) (8 * 60 + 0 + i * 30 + 30)
                              (12 * 60 + 0) (12 * 60 + 30)}"
    and r: "parse_structured_query QueryTranslator_init ''enforce_no_lunch'' no_lunch_params lunch_input_data
             = Some (Inr (concat (map (\<lambda>d. map (\<lambda>p. veto_slot ''MSE252'' d p) ps)
                 (get_default (days lunch_term_config) []))))"
    by blast
  from ps g have ps8: "ps = [8]" by simp
  from r have r': "parse_structured_query QueryTranslator_init ''enforce_no_lunch'' no_lunch_params lunch_input_data
     = Some (Inr [veto_slot ''MSE252'' ''Mon'' 8, veto_slot ''MSE252'' ''Tue'' 8])"
    by (simp add: ps8 lunch_term_config_def get_default_def)
  from s have s': "{i. 0 \<le> i \<and> overlaps (8 * 60 + 0 + i * 30) (8 * 60 + 0 + i * 30 + 30)
                              (12 * 60 + 0) (12 * 60 + 30)} = {8}"
    by (simp add: ps8)
  from p1 p2 p3 have q: "parse_hm ''08:00'' = Inr (8, 0)" "parse_hm ''12:00'' = Inr (12, 0)"
      "parse_hm ''12:30'' = Inr (12, 30)"
    by (simp_all add: lunch_term_config_def get_default_def)
  from c(1) q g s' r' show ?thesis by simp
qed

section \<open>Properties of the validator\<close>

lemma collect_slots_keys:
  "collect_slots cs (e, v) = (e', v') \<Longrightarrow>
   fst ` set e' = fst ` set e \<union>
      constraint_key ` {c \<in> set cs. query_type c = ENFORCE_TIME_SLOT \<or> query_type c = ENFORCE_DAY}
   \<and> fst ` set v' = fst ` set v \<union>
      constraint_key ` {c \<in> set cs. query_type c = VETO_TIME_SLOT \<or> query_type c = VETO_DAY}"
proof (induction cs arbitrary: e v)
  case Nil
  then show ?case by simp
next
  case (Cons c cs)
  show ?case
  proof (cases "query_type c = ENFORCE_TIME_SLOT \<or> query_type c = ENFORCE_DAY")
    case True
    with Cons.prems have "collect_slots cs (AList.update (constraint_key c) c e, v) = (e', v')"
      by (simp add: Let_def)
    from Cons.IH [OF this] True show ?thesis
      by (auto simp: AList.dom_update)
  next
    case False
    note nf = False
    show ?thesis
    proof (cases "query_type c = VETO_TIME_SLOT \<or> query_type c = VETO_DAY")
      case True
      with nf Cons.prems have "collect_slots cs (e, AList.update (constraint_key c) c v) = (e', v')"
        by (simp add: Let_def)
      from Cons.IH [OF this] True nf show ?thesis
        by (auto simp: AList.dom_update)
    next
      case False
      with nf Cons.prems have "collect_slots cs (e, v) = (e', v')"
        by (simp add: Let_def)
      from Cons.IH [OF this] False nf show ?thesis
        by auto
    qed
  qed
qed

lemma conflict_errors_mem:
  "k \<in> fst ` set e \<Longrightarrow> k \<in> fst ` set v \<Longrightarrow> contradiction_error k \<in> set (conflict_errors e v)"
  by (auto simp: conflict_errors_def map_of_eq_None_iff)

lemma course_id_set_ok:
  "(\<forall>c \<in> set cs. c_id c \<noteq> None) \<Longrightarrow>
   course_id_set cs = Inr {i. \<exists>c \<in> set cs. c_id c = Some i}"
  by (induction cs) (auto simp: index_key_def)

lemma instructor_id_set_ok:
  "(\<forall>i \<in> set is. i_id i \<noteq> None) \<Longrightarrow>
   instructor_id_set is = Inr {x. \<exists>i \<in> set is. i_id i = Some x}"
  by (induction "is") (auto simp: index_key_def)

lemma reference_errors_course:
  "c \<in> set cs \<Longrightarrow> unknown_ref (course_id c) vc \<Longrightarrow>
   ''Unknown course ID: '' @ fmt_str (course_id c) \<in> set (reference_errors vc vi cs)"
  by (induction cs) auto

lemma reference_errors_instructor:
  "c \<in> set cs \<Longrightarrow> unknown_ref (instructor_id c) vi \<Longrightarrow>
   ''Unknown instructor ID: '' @ fmt_str (instructor_id c) \<in> set (reference_errors vc vi cs)"
  by (induction cs) auto

lemma validate_returns:
  assumes "\<forall>c \<in> set (get_default (courses input_data) []). c_id c \<noteq> None"
    and "\<forall>i \<in> set (get_default (instructors input_data) []). i_id i \<noteq> None"
  shows "validate_query_constraints constraints input_data =
     Inr (conflict_errors (fst (collect_slots constraints ([], []))) (snd (collect_slots constraints ([], [])))
            @ reference_errors {i. \<exists>c \<in> set (get_default (courses input_data) []). c_id c = Some i}
                {x. \<exists>i \<in> set (get_default (instructors input_data) []). i_id i = Some x} constraints = [],
          conflict_errors (fst (collect_slots constraints ([], []))) (snd (collect_slots constraints ([], [])))
            @ reference_errors {i. \<exists>c \<in> set (get_default (courses input_data) []). c_id c = Some i}
                {x. \<exists>i \<in> set (get_default (instructors input_data) []). i_id i = Some x} constraints)"
  unfolding validate_query_constraints_def
  by (simp add: course_id_set_ok [OF assms(1)] instructor_id_set_ok [OF assms(2)] Let_def
      split: prod.splits)

text \<open>
  C5, as the claim states it, fails: the key of the two dictionaries holds the week as well,
  so an enforce and a veto of the same course, day and period in different weeks are not
  reported, and validation passes.
\<close>

theorem validate_misses_other_week:
  "validate_query_constraints
     [\<lparr>query_type = ENFORCE_TIME_SLOT, course_id = Some ''MSE252'', instructor_id = None,
       week = Some 1, day = Some ''Mon'', period_start = Some 3, period_end = None,
       room_id = None, course_id_2 = None, extra_params = []\<rparr>,
      \<lparr>query_type = VETO_TIME_SLOT, course_id = Some ''MSE252'', instructor_id = None,
       week = Some 2, day = Some ''Mon'', period_start = Some 3, period_end = None,
       room_id = None, course_id_2 = None, extra_params = []\<rparr>]
     demo_input_data
   = Inr (True, [])"
  by (simp add: validate_query_constraints_def constraint_key_def conflict_errors_def
      demo_input_data_def get_default_def index_key_def unknown_ref_def)

text \<open>
  C5, amended. When a constraint sequence holds an \<^verbatim>\<open>enforce_time_slot\<close> and a
  \<^verbatim>\<open>veto_time_slot\<close> constraint with the same course \<open>C\<close>, the same week, the same day \<open>D\<close>
  and the same period \<open>P\<close>, then validation (on an instance all of whose course and
  instructor records carry an \<^verbatim>\<open>id\<close>) returns \<^verbatim>\<open>ok = False\<close>, and its error list holds the
  error that names \<open>C\<close>, \<open>D\<close> and \<open>P\<close>.
\<close>

theorem validate_contradiction_same_slot:
  assumes "e \<in> set constraints" and "query_type e = ENFORCE_TIME_SLOT"
    and "v \<in> set constraints" and "query_type v = VETO_TIME_SLOT"
    and "course_id e = Some C" and "course_id v = Some C"
    and "day e = Some D" and "day v = Some D"
    and "period_start e = Some P" and "period_start v = Some P"
    and "week e = week v"
    and "\<forall>c \<in> set (get_default (courses input_data) []). c_id c \<noteq> None"
    and "\<forall>i \<in> set (get_default (instructors input_data) []). i_id i \<noteq> None"
  shows "\<exists>errors. validate_query_constraints constraints input_data = Inr (False, errors)
     \<and> ''Contradictory constraints: Cannot both enforce and veto '' @ C @ '' on '' @ D
          @ '' at period '' @ str_int P \<in> set errors"
proof -
  obtain es vs where cs: "collect_slots constraints ([], []) = (es, vs)"
    by (cases "collect_slots constraints ([], [])") blast
  from collect_slots_keys [OF cs] assms(1-4)
  have "constraint_key e \<in> fst ` set es" and "constraint_key v \<in> fst ` set vs"
    by auto
  moreover have "constraint_key v = constraint_key e"
    using assms(5-11) by (simp add: constraint_key_def)
  ultimately have "contradiction_error (constraint_key e) \<in> set (conflict_errors es vs)"
    by (simp add: conflict_errors_mem)
  moreover have "contradiction_error (constraint_key e)
    = ''Contradictory constraints: Cannot both enforce and veto '' @ C @ '' on '' @ D
          @ '' at period '' @ str_int P"
    using assms(5,7,9) by (simp add: contradiction_error_def constraint_key_def fmt_str_def fmt_int_def)
  ultimately have m: "''Contradictory constraints: Cannot both enforce and veto '' @ C @ '' on '' @ D
          @ '' at period '' @ str_int P \<in> set (conflict_errors es vs)"
    by simp
  show ?thesis
    unfolding validate_returns [OF assms(12,13)] cs using m by auto
qed

theorem validate_contradiction_same_slot_witness:
  "validate_query_constraints same_week_pair demo_input_data
   = Inr (False, [''Contradictory constraints: Cannot both enforce and veto MSE252 on Mon at period 3''])"
proof -
  have e: "slot_c ENFORCE_TIME_SLOT ''MSE252'' 1 ''Mon'' 3 \<in> set same_week_pair"
    and v: "slot_c VETO_TIME_SLOT ''MSE252'' 1 ''Mon'' 3 \<in> set same_week_pair"
    by (simp_all add: same_week_pair_def)
  have ids: "\<forall>c \<in> set (get_default (courses demo_input_data) []). c_id c \<noteq> None"
    "\<forall>i \<in> set (get_default (instructors demo_input_data) []). i_id i \<noteq> None"
    by (simp_all add: demo_input_data_def get_default_def)
  from validate_contradiction_same_slot [OF e _ v _ _ _ _ _ _ _ _ ids, of "''MSE252''" "''Mon''" 3]
  obtain errors where r: "validate_query_constraints same_week_pair demo_input_data = Inr (False, errors)"
    and m: "''Contradictory constraints: Cannot both enforce and veto '' @ ''MSE252'' @ '' on '' @ ''Mon''
          @ '' at period '' @ str_int 3 \<in> set errors"
    by (auto simp: slot_c_def)
  have "validate_query_constraints same_week_pair demo_input_data
   = Inr (False, [''Contradictory constraints: Cannot both enforce and veto MSE252 on Mon at period 3''])"
    by (simp add: validate_query_constraints_def same_week_pair_def slot_c_def constraint_key_def
        conflict_errors_def contradiction_error_def fmt_str_def fmt_int_def str_int_def
        str_nat.simps digit_char_def
        demo_input_data_def get_default_def index_key_def unknown_ref_def)
  with r m show ?thesis by simp
qed

text \<open>
  C9. Whenever a constraint of the sequence has a course identifier that is set (not
  \<^verbatim>\<open>None\<close>, not empty) and is the \<^verbatim>\<open>id\<close> of no course of the instance, validation returns
  \<^verbatim>\<open>ok = False\<close> and its error list holds \<^verbatim>\<open>Unknown course ID: \<close> followed by that identifier;
  the same for an instructor identifier and the instructors of the instance. The instance
  is one all of whose course and instructor records carry an \<^verbatim>\<open>id\<close>.
\<close>

theorem validate_unknown_reference:
  assumes "c \<in> set constraints"
    and "\<forall>k \<in> set (get_default (courses input_data) []). c_id k \<noteq> None"
    and "\<forall>i \<in> set (get_default (instructors input_data) []). i_id i \<noteq> None"
  shows "(course_id c = Some x \<and> x \<noteq> []
            \<and> (\<forall>k \<in> set (get_default (courses input_data) []). c_id k \<noteq> Some x)
          \<longrightarrow> (\<exists>errors. validate_query_constraints constraints input_data = Inr (False, errors)
                 \<and> ''Unknown course ID: '' @ x \<in> set errors))
       \<and> (instructor_id c = Some y \<and> y \<noteq> []
            \<and> (\<forall>i \<in> set (get_default (instructors input_data) []). i_id i \<noteq> Some y)
          \<longrightarrow> (\<exists>errors. validate_query_constraints constraints input_data = Inr (False, errors)
                 \<and> ''Unknown instructor ID: '' @ y \<in> set errors))"
proof (intro conjI impI)
  assume a: "course_id c = Some x \<and> x \<noteq> []
       \<and> (\<forall>k \<in> set (get_default (courses input_data) []). c_id k \<noteq> Some x)"
  then have "unknown_ref (course_id c) {i. \<exists>k \<in> set (get_default (courses input_data) []). c_id k = Some i}"
    by (auto simp: unknown_ref_def)
  from reference_errors_course [OF assms(1) this] a
  have "''Unknown course ID: '' @ x \<in> set (reference_errors
      {i. \<exists>k \<in> set (get_default (courses input_data) []). c_id k = Some i}
      {x. \<exists>i \<in> set (get_default (instructors input_data) []). i_id i = Some x} constraints)"
    by (simp add: fmt_str_def)
  then show "\<exists>errors. validate_query_constraints constraints input_data = Inr (False, errors)
                 \<and> ''Unknown course ID: '' @ x \<in> set errors"
    unfolding validate_returns [OF assms(2,3)] by auto
next
  assume a: "instructor_id c = Some y \<and> y \<noteq> []
       \<and> (\<forall>i \<in> set (get_default (instructors input_data) []). i_id i \<noteq> Some y)"
  then have "unknown_ref (instructor_id c) {x. \<exists>i \<in> set (get_default (instructors input_data) []). i_id i = Some x}"
    by (auto simp: unknown_ref_def)
  from reference_errors_instructor [OF assms(1) this] a
  have "''Unknown instructor ID: '' @ y \<in> set (reference_errors
      {i. \<exists>k \<in> set (get_default (courses input_data) []). c_id k = Some i}
      {x. \<exists>i \<in> set (get_default (instructors input_data) []). i_id i = Some x} constraints)"
    by (simp add: fmt_str_def)
  then show "\<exists>errors. validate_query_constraints constraints input_data = Inr (False, errors)
                 \<and> ''Unknown instructor ID: '' @ y \<in> set errors"
    unfolding validate_returns [OF assms(2,3)] by auto
qed

theorem validate_unknown_reference_witness:
  "validate_query_constraints unknown_refs demo_input_data
   = Inr (False, [''Unknown course ID: does-not-exist'', ''Unknown instructor ID: Prof_Z''])"
proof -
  have ids: "\<forall>c \<in> set (get_default (courses demo_input_data) []). c_id c \<noteq> None"
    "\<forall>i \<in> set (get_default (instructors demo_input_data) []). i_id i \<noteq> None"
    by (simp_all add: demo_input_data_def get_default_def)
  have c: "hd unknown_refs \<in> set unknown_refs" by (simp add: unknown_refs_def)
  note t = validate_unknown_reference [OF c ids, of "''does-not-exist''" "''Prof_Z''"]
  have h1: "course_id (hd unknown_refs) = Some ''does-not-exist'' \<and> ''does-not-exist'' \<noteq> []
       \<and> (\<forall>k \<in> set (get_default (courses demo_input_data) []). c_id k \<noteq> Some ''does-not-exist'')"
    by (simp add: unknown_refs_def demo_input_data_def get_default_def)
  have h2: "instructor_id (hd unknown_refs) = Some ''Prof_Z'' \<and> ''Prof_Z'' \<noteq> []
       \<and> (\<forall>i \<in> set (get_default (instructors demo_input_data) []). i_id i \<noteq> Some ''Prof_Z'')"
    by (simp add: unknown_refs_def demo_input_data_def get_default_def)
  from t h1 h2 obtain errors where
    r: "validate_query_constraints unknown_refs demo_input_data = Inr (False, errors)"
    and "''Unknown course ID: '' @ ''does-not-exist'' \<in> set errors"
    by blast
  have "validate_query_constraints unknown_refs demo_input_data
   = Inr (False, [''Unknown course ID: does-not-exist'', ''Unknown instructor ID: Prof_Z''])"
    by (simp add: validate_query_constraints_def unknown_refs_def QueryConstraint_init_def
        constraint_key_def conflict_errors_def fmt_str_def
        demo_input_data_def get_default_def index_key_def unknown_ref_def)
  with r show ?thesis by simp
qed

section \<open>Properties of the what-if call\<close>

lemma update_fresh: "k \<notin> fst ` set al \<Longrightarrow> AList.update k v al = al @ [(k, v)]"
  by (induction al) auto

lemma fold_update_distinct:
  "distinct (map fst (d @ items)) \<Longrightarrow>
   foldl (\<lambda>d kv. AList.update (fst kv) (snd kv) d) d items = d @ items"
proof (induction items arbitrary: d)
  case Nil
  then show ?case by simp
next
  case (Cons kv items)
  from Cons.prems have fresh: "fst kv \<notin> fst ` set d" by auto
  have u: "AList.update (fst kv) (snd kv) d = d @ [kv]"
    using update_fresh [OF fresh, of "snd kv"] by simp
  from Cons.prems have "distinct (map fst ((d @ [kv]) @ items))" by simp
  from Cons.IH [OF this] show ?case by (simp add: u)
qed

lemma dict_of_items_distinct: "distinct (map fst items) \<Longrightarrow> dict_of_items items = items"
  using fold_update_distinct [of "[]" items] by (simp add: dict_of_items_def)

lemma julia_to_python_embed: "distinct_keys v \<Longrightarrow> julia_to_python (jl_of_json v) = v"
proof (induction v)
  case (JList xs)
  then have "map (\<lambda>x. julia_to_python (jl_of_json x)) xs = xs"
    by (intro map_idI) simp
  then show ?case by (simp add: comp_def)
next
  case (JDict kvs)
  have m: "map (\<lambda>kv. (fst kv, julia_to_python (jl_of_json (snd kv)))) kvs = kvs"
  proof (rule map_idI)
    fix kv assume kv: "kv \<in> set kvs"
    with JDict.prems have "distinct_keys (snd kv)" by simp
    with JDict.IH [of kv "snd kv"] kv have "julia_to_python (jl_of_json (snd kv)) = snd kv"
      by (cases kv) auto
    then show "(fst kv, julia_to_python (jl_of_json (snd kv))) = kv" by simp
  qed
  from JDict.prems have d: "distinct (map fst kvs)" by simp
  show ?case by (simp add: comp_def m dict_of_items_distinct [OF d])
qed simp_all

text \<open>
  The conversion at work: an integer key becomes its text and meets the string key of the
  same text, and a tuple becomes a list.
\<close>

lemma julia_to_python_converts:
  "julia_to_python (JlDict [(KInt 1, JlTuple [JlInt 2 :: int jl]), (KStr ''2'', JlNone), (KStr ''1'', JlNone)])
   = JDict [(''1'', JNull), (''2'', JNull)]"
  by (simp add: dict_of_items_def str_int_def str_nat.simps digit_char_def)

text \<open>
  C3, as the claim states it, fails twice. A solver status other than \<^verbatim>\<open>feasible_query\<close>
  and \<^verbatim>\<open>infeasible_query\<close> is returned as it is, not as \<^verbatim>\<open>error\<close>; and in mock mode the
  solver is not called at all.
\<close>

theorem solve_what_if_status_not_rewritten:
  "result_status (fst (solve_what_if (julia_solver time_limit_oracle) ''traceback'' demo_input_data [] 100))
     = Some (JStr ''time_limit'')
   \<and> snd (solve_what_if (mock_solver time_limit_oracle) ''traceback'' demo_input_data [] 100) = []"
  by (simp add: solve_what_if_def solve_what_if_julia_def julia_solver_def mock_solver_def
      time_limit_oracle_def time_limit_payload_def result_status_def get_default_def
      dict_of_items_def)

text \<open>
  C3, amended. With the Julia solver in use, \<^verbatim>\<open>solve_what_if\<close> calls the solver exactly
  once, with the arguments it was given, and never again. When that call raises, the result
  has status \<^verbatim>\<open>error\<close> and carries the text of the exception, in the explanation and under
  \<^verbatim>\<open>diagnostics\<close>. When the call returns a payload whose conversion by
  \<^verbatim>\<open>_julia_to_python\<close> is a dictionary, and the status of that dictionary is not
  \<^verbatim>\<open>infeasible_query\<close> or its \<^verbatim>\<open>iis\<close> has a length, the result is the converted dictionary
  with no further change: its status reaches the caller as it is, and is not rewritten to
  \<^verbatim>\<open>error\<close>. The conversion leaves unmodified every payload made of dictionaries with
  string keys (none twice), lists and scalars. In mock mode the solver is not called and the
  result has status \<^verbatim>\<open>not_supported\<close>.
\<close>

theorem solve_what_if_delegates_once:
  "(use_julia_solver self \<longrightarrow>
      snd (solve_what_if self tb input_json query_constraints original_objective)
        = [(input_json, query_constraints, original_objective)])
   \<and> (use_julia_solver self
        \<and> julia_solve_what_if_query self (input_json, query_constraints, original_objective) = Inl error_msg
      \<longrightarrow> fst (solve_what_if self tb input_json query_constraints original_objective)
          = JDict [(''status'', JStr ''error''), (''query_feasible'', JBool False),
                   (''explanation'', JStr (''What-if analysis error: '' @ error_msg)),
                   (''diagnostics'', JDict [(''error'', JStr error_msg), (''traceback'', JStr tb)])])
   \<and> (use_julia_solver self
        \<and> julia_solve_what_if_query self (input_json, query_constraints, original_objective) = Inr payload
        \<and> julia_to_python payload = JDict kvs
        \<and> (map_of kvs ''status'' \<noteq> Some (JStr ''infeasible_query'')
             \<or> (\<exists>n. py_len (get_default (map_of kvs ''iis'') (JList [])) = Inr n))
      \<longrightarrow> fst (solve_what_if self tb input_json query_constraints original_objective) = JDict kvs
          \<and> result_status (fst (solve_what_if self tb input_json query_constraints original_objective))
              = map_of kvs ''status'')
   \<and> (distinct_keys v \<longrightarrow> julia_to_python (jl_of_json v) = v)
   \<and> (\<not> use_julia_solver self \<longrightarrow>
        solve_what_if self tb input_json query_constraints original_objective
          = (JDict [(''status'', JStr ''not_supported''), (''query_feasible'', JBool False),
                    (''explanation'', JStr ''What-if analysis not supported in mock mode'')], []))"
  by (auto simp: solve_what_if_def solve_what_if_julia_def julia_to_python_embed what_if_error_def
      result_status_def get_default_def Let_def split: option.splits)

theorem solve_what_if_delegates_once_witness:
  "snd (solve_what_if (julia_solver raising_oracle) ''traceback'' demo_input_data same_week_pair 100)
     = [(demo_input_data, same_week_pair, 100)]
   \<and> fst (solve_what_if (julia_solver raising_oracle) ''traceback'' demo_input_data same_week_pair 100)
     = JDict [(''status'', JStr ''error''), (''query_feasible'', JBool False),
              (''explanation'',
                 JStr ''What-if analysis error: JULIA: UndefVarError: solve_what_if_query not defined''),
              (''diagnostics'',
                 JDict [(''error'', JStr ''JULIA: UndefVarError: solve_what_if_query not defined''),
                        (''traceback'', JStr ''traceback'')])]
   \<and> fst (solve_what_if (julia_solver time_limit_oracle) ''traceback'' demo_input_data same_week_pair 100)
     = time_limit_result
   \<and> result_status (fst (solve_what_if (julia_solver time_limit_oracle) ''traceback'' demo_input_data
         same_week_pair 100)) = Some (JStr ''time_limit'')
   \<and> fst (solve_what_if (julia_solver infeasible_oracle) ''traceback'' demo_input_data same_week_pair 100)
     = infeasible_result
   \<and> julia_to_python (jl_of_json infeasible_result) = infeasible_result
   \<and> solve_what_if (mock_solver raising_oracle) ''traceback'' demo_input_data same_week_pair 100
     = (JDict [(''status'', JStr ''not_supported''), (''query_feasible'', JBool False),
               (''explanation'', JStr ''What-if analysis not supported in mock mode'')], [])"
proof -
  have ct: "julia_to_python time_limit_payload = time_limit_result"
    by (simp add: time_limit_payload_def time_limit_result_def dict_of_items_def)
  have ci: "julia_to_python infeasible_payload = infeasible_result"
    by (simp add: infeasible_payload_def infeasible_result_def dict_of_items_def)
  have dk: "distinct_keys infeasible_result"
    by (simp add: infeasible_result_def)
  note r = solve_what_if_delegates_once [of "julia_solver raising_oracle" "''traceback''"
      demo_input_data same_week_pair 100
      "''JULIA: UndefVarError: solve_what_if_query not defined''" JlNone "[]" JNull]
  note t = solve_what_if_delegates_once [of "julia_solver time_limit_oracle" "''traceback''"
      demo_input_data same_week_pair 100 "[]" time_limit_payload
      "[(''status'', JStr ''time_limit''), (''query_feasible'', JBool False),
        (''explanation'', JStr ''Solver stopped at its time limit'')]" JNull]
  note i = solve_what_if_delegates_once [of "julia_solver infeasible_oracle" "''traceback''"
      demo_input_data same_week_pair 100 "[]" infeasible_payload
      "[(''status'', JStr ''infeasible_query''), (''query_feasible'', JBool False),
        (''iis'', JList [JDict [(''id'', JStr ''c1''), (''type'', JStr ''minimality''),
                                (''description'', JStr ''obj<=100''), (''in_iis'', JBool True)]])]"
      infeasible_result]
  note m = solve_what_if_delegates_once [of "mock_solver raising_oracle" "''traceback''"
      demo_input_data same_week_pair 100 "[]" JlNone "[]" JNull]
  from r have r1: "snd (solve_what_if (julia_solver raising_oracle) ''traceback'' demo_input_data same_week_pair 100)
     = [(demo_input_data, same_week_pair, 100)]"
    by (simp add: julia_solver_def)
  from r have r2: "fst (solve_what_if (julia_solver raising_oracle) ''traceback'' demo_input_data same_week_pair 100)
     = JDict [(''status'', JStr ''error''), (''query_feasible'', JBool False),
              (''explanation'',
                 JStr ''What-if analysis error: JULIA: UndefVarError: solve_what_if_query not defined''),
              (''diagnostics'',
                 JDict [(''error'', JStr ''JULIA: UndefVarError: solve_what_if_query not defined''),
                        (''traceback'', JStr ''traceback'')])]"
    by (simp add: julia_solver_def raising_oracle_def)
  from t ct have t1: "fst (solve_what_if (julia_solver time_limit_oracle) ''traceback'' demo_input_data same_week_pair 100)
     = time_limit_result"
    and t2: "result_status (fst (solve_what_if (julia_solver time_limit_oracle) ''traceback'' demo_input_data
         same_week_pair 100)) = Some (JStr ''time_limit'')"
    by (simp_all add: julia_solver_def time_limit_oracle_def time_limit_result_def result_status_def)
  from i ci have i1: "fst (solve_what_if (julia_solver infeasible_oracle) ''traceback'' demo_input_data same_week_pair 100)
     = infeasible_result"
    by (simp add: julia_solver_def infeasible_oracle_def infeasible_result_def get_default_def)
  from i dk have i2: "julia_to_python (jl_of_json infeasible_result) = infeasible_result"
    by blast
  from m have m1: "solve_what_if (mock_solver raising_oracle) ''traceback'' demo_input_data same_week_pair 100
     = (JDict [(''status'', JStr ''not_supported''), (''query_feasible'', JBool False),
               (''explanation'', JStr ''What-if analysis not supported in mock mode'')], [])"
    by (simp add: mock_solver_def)
  from r1 r2 t1 t2 i1 i2 m1 show ?thesis by simp
qed

text \<open>
  The two cases that the amended statement leaves out both end in the \<^verbatim>\<open>except\<close> branch:
  a dictionary of status \<^verbatim>\<open>infeasible_query\<close> whose \<^verbatim>\<open>iis\<close> has no length (the \<^verbatim>\<open>len\<close> for
  the progress message raises), and a payload whose conversion is no dictionary (\<^verbatim>\<open>.get\<close>
  raises).
\<close>

lemma solve_what_if_infeasible_without_length:
  assumes "use_julia_solver self"
    and "julia_solve_what_if_query self (input_json, query_constraints, original_objective) = Inr payload"
    and "julia_to_python payload = JDict kvs"
    and "map_of kvs ''status'' = Some (JStr ''infeasible_query'')"
    and "py_len (get_default (map_of kvs ''iis'') (JList [])) = Inl error_msg"
  shows "fst (solve_what_if self tb input_json query_constraints original_objective)
         = what_if_error error_msg tb"
  using assms
  by (simp add: solve_what_if_def solve_what_if_julia_def get_default_def Let_def)

lemma solve_what_if_no_dictionary:
  assumes "use_julia_solver self"
    and "julia_solve_what_if_query self (input_json, query_constraints, original_objective) = Inr payload"
    and "\<forall>kvs. julia_to_python payload \<noteq> JDict kvs"
  shows "fst (solve_what_if self tb input_json query_constraints original_objective)
         = what_if_error (no_attribute_get (julia_to_python payload)) tb"
  using assms
  by (cases "julia_to_python payload")
     (simp_all add: solve_what_if_def solve_what_if_julia_def Let_def)

section \<open>Properties of the graph of reasons\<close>

lemma py_in_sublist: "py_in kw s \<longleftrightarrow> sublist kw s"
  by (induction s) (simp_all add: sublist_Cons_right)

lemma share_loop_iff:
  "share_loop kws d1 d2 \<longleftrightarrow> (\<exists>kw \<in> set kws. sublist kw d1 \<and> sublist kw d2)"
  by (induction kws) (auto simp: py_in_sublist)

lemma constraints_share_scope_iff:
  "constraints_share_scope c1 c2 \<longleftrightarrow>
     (\<exists>kw \<in> {''course'', ''instructor'', ''room'', ''time'', ''week'', ''day''}.
        sublist kw (py_lower (get_default (iis_description c1) []))
        \<and> sublist kw (py_lower (get_default (iis_description c2) [])))"
  by (simp add: constraints_share_scope_def share_loop_iff common_keywords_def Let_def)

lemma edges_from_eq:
  "edges_from cid c j rest =
     map (\<lambda>m. \<lparr>e_from = cid, e_to = id_or_index (rest ! (m - j)) m,
                e_relationship = ''shares_variables''\<rparr>)
         (filter (\<lambda>m. constraints_share_scope c (rest ! (m - j))) [j..<j + length rest])"
proof (induction rest arbitrary: j)
  case Nil
  then show ?case by simp
next
  case (Cons other rest)
  have "j < j + length (other # rest)" by simp
  from upt_conv_Cons [OF this]
  have range: "[j..<j + length (other # rest)] = j # [Suc j..<Suc j + length rest]"
    by (simp del: upt_Suc)
  have nth: "(other # rest) ! (m - j) = rest ! (m - Suc j)" if "m \<in> set [Suc j..<Suc j + length rest]" for m
  proof -
    from that have "m - j = Suc (m - Suc j)" by auto
    then show ?thesis by simp
  qed
  have f: "filter (\<lambda>m. constraints_share_scope c ((other # rest) ! (m - j))) [Suc j..<Suc j + length rest]
         = filter (\<lambda>m. constraints_share_scope c (rest ! (m - Suc j))) [Suc j..<Suc j + length rest]"
    by (rule filter_cong [OF refl]) (simp only: nth)
  have m: "map (\<lambda>m. \<lparr>e_from = cid, e_to = id_or_index ((other # rest) ! (m - j)) m,
                e_relationship = ''shares_variables''\<rparr>)
              (filter (\<lambda>m. constraints_share_scope c (rest ! (m - Suc j))) [Suc j..<Suc j + length rest])
         = map (\<lambda>m. \<lparr>e_from = cid, e_to = id_or_index (rest ! (m - Suc j)) m,
                e_relationship = ''shares_variables''\<rparr>)
              (filter (\<lambda>m. constraints_share_scope c (rest ! (m - Suc j))) [Suc j..<Suc j + length rest])"
    by (rule map_cong [OF refl]) (simp add: nth)
  have ih: "edges_from cid c (j + 1) rest =
     map (\<lambda>m. \<lparr>e_from = cid, e_to = id_or_index (rest ! (m - Suc j)) m,
                e_relationship = ''shares_variables''\<rparr>)
         (filter (\<lambda>m. constraints_share_scope c (rest ! (m - Suc j))) [Suc j..<Suc j + length rest])"
    using Cons.IH [of "Suc j"] by (simp only: Suc_eq_plus1)
  have head: "(other # rest) ! (j - j) = other" by simp
  show ?case
  proof (cases "constraints_share_scope c other")
    case True
    then show ?thesis
      by (simp only: range edges_from.simps ih list.map filter.simps f m head
          append_Cons append_Nil if_True)
  next
    case False
    then show ?thesis
      by (simp only: range edges_from.simps ih list.map filter.simps f m head
          append_Cons append_Nil if_False)
  qed
qed

lemma build_loop_eq:
  "k \<le> length iis \<Longrightarrow>
   build_loop k (drop k iis) ctx =
     (map (\<lambda>i. reason_of i (iis ! i) ctx) [k..<length iis],
      concat (map (\<lambda>i. map (\<lambda>j. \<lparr>e_from = id_or_index (iis ! i) i, e_to = id_or_index (iis ! j) j,
                                   e_relationship = ''shares_variables''\<rparr>)
                            (filter (\<lambda>j. constraints_share_scope (iis ! i) (iis ! j)) [Suc i..<length iis]))
                  [k..<length iis]))"
proof (induction "length iis - k" arbitrary: k)
  case 0
  then show ?case by simp
next
  case (Suc n)
  then have k: "k < length iis" and n: "n = length iis - Suc k" and le: "Suc k \<le> length iis"
    by auto
  have d: "drop k iis = iis ! k # drop (Suc k) iis"
    using k by (simp add: Cons_nth_drop_Suc)
  have range: "[k..<length iis] = k # [Suc k..<length iis]"
    using upt_conv_Cons [OF k] .
  have len: "Suc k + length (drop (Suc k) iis) = length iis" using le by simp
  have nth: "drop (Suc k) iis ! (m - Suc k) = iis ! m" if "m \<in> set [Suc k..<length iis]" for m
    using that le by (simp add: nth_drop)
  have f: "filter (\<lambda>m. constraints_share_scope (iis ! k) (drop (Suc k) iis ! (m - Suc k))) [Suc k..<length iis]
         = filter (\<lambda>j. constraints_share_scope (iis ! k) (iis ! j)) [Suc k..<length iis]"
    by (rule filter_cong [OF refl]) (simp only: nth)
  have m: "map (\<lambda>m. \<lparr>e_from = id_or_index (iis ! k) k, e_to = id_or_index (drop (Suc k) iis ! (m - Suc k)) m,
              e_relationship = ''shares_variables''\<rparr>)
            (filter (\<lambda>j. constraints_share_scope (iis ! k) (iis ! j)) [Suc k..<length iis])
      = map (\<lambda>j. \<lparr>e_from = id_or_index (iis ! k) k, e_to = id_or_index (iis ! j) j,
                                 e_relationship = ''shares_variables''\<rparr>)
            (filter (\<lambda>j. constraints_share_scope (iis ! k) (iis ! j)) [Suc k..<length iis])"
    by (rule map_cong [OF refl]) (simp only: nth set_filter mem_Collect_eq)
  have e: "edges_from (id_or_index (iis ! k) k) (iis ! k) (k + 1) (drop (Suc k) iis)
       = map (\<lambda>j. \<lparr>e_from = id_or_index (iis ! k) k, e_to = id_or_index (iis ! j) j,
                                   e_relationship = ''shares_variables''\<rparr>)
                            (filter (\<lambda>j. constraints_share_scope (iis ! k) (iis ! j)) [Suc k..<length iis])"
    by (simp only: Suc_eq_plus1 [symmetric]
        edges_from_eq [of "id_or_index (iis ! k) k" "iis ! k" "Suc k" "drop (Suc k) iis"] len f m)
  have ih: "build_loop (k + 1) (drop (Suc k) iis) ctx =
     (map (\<lambda>i. reason_of i (iis ! i) ctx) [Suc k..<length iis],
      concat (map (\<lambda>i. map (\<lambda>j. \<lparr>e_from = id_or_index (iis ! i) i, e_to = id_or_index (iis ! j) j,
                                   e_relationship = ''shares_variables''\<rparr>)
                            (filter (\<lambda>j. constraints_share_scope (iis ! i) (iis ! j)) [Suc i..<length iis]))
                  [Suc k..<length iis]))"
    using Suc.hyps(1) [OF n le] by (simp only: Suc_eq_plus1)
  show ?case
    by (simp only: d range build_loop.simps ih prod.case e list.map concat.simps)
qed

text \<open>
  C7. The construction of the graph of reasons is total: the model has no error branch,
  since on records whose fields are strings and a flag no step of the source can raise.
  Every record of the list becomes exactly one reason, in order; a missing \<^verbatim>\<open>id\<close> becomes
  \<^verbatim>\<open>c\<close> followed by the index, a missing type \<^verbatim>\<open>unknown\<close>, a missing flag \<^verbatim>\<open>True\<close>, and a
  missing description the empty text. The edges are, in order, those of the pairs of
  indices \<open>i < j\<close> for which some keyword among course, instructor, room, time, week and
  day occurs in both descriptions once in lower case. The empty list gives the graph with no
  reason and no edge.
\<close>

theorem build_graph_of_reasons_total:
  "g_reasons (build_graph_of_reasons iis query ctx)
     = map (\<lambda>i. \<lparr>r_id = id_or_index (iis ! i) i,
                  r_type = (case iis_type (iis ! i) of None \<Rightarrow> ''unknown'' | Some t \<Rightarrow> t),
                  r_text = constraint_to_reason (iis ! i) ctx,
                  r_in_iis = (case iis_in_iis (iis ! i) of None \<Rightarrow> True | Some b \<Rightarrow> b)\<rparr>)
           [0..<length iis]
   \<and> id_or_index c n = (case iis_id c of None \<Rightarrow> ''c'' @ str_nat n | Some x \<Rightarrow> x)
   \<and> length (g_reasons (build_graph_of_reasons iis query ctx)) = length iis
   \<and> g_num_reasons (build_graph_of_reasons iis query ctx) = length iis
   \<and> g_edges (build_graph_of_reasons iis query ctx)
     = concat (map (\<lambda>i. map (\<lambda>j. \<lparr>e_from = id_or_index (iis ! i) i, e_to = id_or_index (iis ! j) j,
                                   e_relationship = ''shares_variables''\<rparr>)
                 (filter (\<lambda>j. \<exists>kw \<in> {''course'', ''instructor'', ''room'', ''time'', ''week'', ''day''}.
                            sublist kw (py_lower (case iis_description (iis ! i) of None \<Rightarrow> [] | Some d \<Rightarrow> d))
                            \<and> sublist kw (py_lower (case iis_description (iis ! j) of None \<Rightarrow> [] | Some d \<Rightarrow> d)))
                    [Suc i..<length iis]))
               [0..<length iis])
   \<and> build_graph_of_reasons [] query ctx
     = \<lparr>g_query = query, g_reasons = [], g_edges = [], g_num_reasons = 0, g_is_connected = False,
        g_visualization_data = \<lparr>v_nodes = [], v_edges = []\<rparr>\<rparr>"
proof -
  have loop: "build_loop 0 iis ctx =
     (map (\<lambda>i. reason_of i (iis ! i) ctx) [0..<length iis],
      concat (map (\<lambda>i. map (\<lambda>j. \<lparr>e_from = id_or_index (iis ! i) i, e_to = id_or_index (iis ! j) j,
                                   e_relationship = ''shares_variables''\<rparr>)
                            (filter (\<lambda>j. constraints_share_scope (iis ! i) (iis ! j)) [Suc i..<length iis]))
                  [0..<length iis]))"
    using build_loop_eq [of 0 iis ctx] by simp
  have r: "g_reasons (build_graph_of_reasons iis query ctx)
     = map (\<lambda>i. reason_of i (iis ! i) ctx) [0..<length iis]"
    by (simp add: build_graph_of_reasons_def loop)
  have e: "g_edges (build_graph_of_reasons iis query ctx)
     = concat (map (\<lambda>i. map (\<lambda>j. \<lparr>e_from = id_or_index (iis ! i) i, e_to = id_or_index (iis ! j) j,
                                   e_relationship = ''shares_variables''\<rparr>)
                            (filter (\<lambda>j. constraints_share_scope (iis ! i) (iis ! j)) [Suc i..<length iis]))
                  [0..<length iis])"
    by (simp add: build_graph_of_reasons_def loop)
  have n: "g_num_reasons (build_graph_of_reasons iis query ctx) = length iis"
    by (simp add: build_graph_of_reasons_def loop)
  have ro: "reason_of i k ctx = \<lparr>r_id = id_or_index k i,
                  r_type = (case iis_type k of None \<Rightarrow> ''unknown'' | Some t \<Rightarrow> t),
                  r_text = constraint_to_reason k ctx,
                  r_in_iis = (case iis_in_iis k of None \<Rightarrow> True | Some b \<Rightarrow> b)\<rparr>" for i k
    by (simp add: reason_of_def get_default_def)
  have sh: "constraints_share_scope a b \<longleftrightarrow>
      (\<exists>kw \<in> {''course'', ''instructor'', ''room'', ''time'', ''week'', ''day''}.
          sublist kw (py_lower (case iis_description a of None \<Rightarrow> [] | Some d \<Rightarrow> d))
          \<and> sublist kw (py_lower (case iis_description b of None \<Rightarrow> [] | Some d \<Rightarrow> d)))" for a b
    using constraints_share_scope_iff [of a b] by (simp only: get_default_def)
  have idx: "id_or_index c n = (case iis_id c of None \<Rightarrow> ''c'' @ str_nat n | Some x \<Rightarrow> x)"
    by (simp add: id_or_index_def get_default_def split: option.splits)
  have emp: "build_graph_of_reasons [] query ctx
     = \<lparr>g_query = query, g_reasons = [], g_edges = [], g_num_reasons = 0, g_is_connected = False,
        g_visualization_data = \<lparr>v_nodes = [], v_edges = []\<rparr>\<rparr>"
    by (simp add: build_graph_of_reasons_def create_graph_visualization_json_def)
  have r': "g_reasons (build_graph_of_reasons iis query ctx)
     = map (\<lambda>i. \<lparr>r_id = id_or_index (iis ! i) i,
                  r_type = (case iis_type (iis ! i) of None \<Rightarrow> ''unknown'' | Some t \<Rightarrow> t),
                  r_text = constraint_to_reason (iis ! i) ctx,
                  r_in_iis = (case iis_in_iis (iis ! i) of None \<Rightarrow> True | Some b \<Rightarrow> b)\<rparr>)
           [0..<length iis]"
    by (simp only: r ro)
  have l: "length (g_reasons (build_graph_of_reasons iis query ctx)) = length iis"
    by (simp add: r)
  have e': "g_edges (build_graph_of_reasons iis query ctx)
     = concat (map (\<lambda>i. map (\<lambda>j. \<lparr>e_from = id_or_index (iis ! i) i, e_to = id_or_index (iis ! j) j,
                                   e_relationship = ''shares_variables''\<rparr>)
                 (filter (\<lambda>j. \<exists>kw \<in> {''course'', ''instructor'', ''room'', ''time'', ''week'', ''day''}.
                            sublist kw (py_lower (case iis_description (iis ! i) of None \<Rightarrow> [] | Some d \<Rightarrow> d))
                            \<and> sublist kw (py_lower (case iis_description (iis ! j) of None \<Rightarrow> [] | Some d \<Rightarrow> d)))
                    [Suc i..<length iis]))
               [0..<length iis])"
    by (simp only: e sh)
  from r' idx l n e' emp show ?thesis by (intro conjI)
qed

theorem build_graph_of_reasons_total_witness:
  "length (g_reasons (build_graph_of_reasons demo_iis ''why not Monday?'' demo_input_data)) = 3
   \<and> g_reasons (build_graph_of_reasons demo_iis ''why not Monday?'' demo_input_data)
     = [\<lparr>r_id = ''c1'', r_type = ''minimality'',
         r_text = ''The new schedule must achieve at least the same objective value as the original optimal schedule'',
         r_in_iis = True\<rparr>,
        \<lparr>r_id = ''q1'', r_type = ''query_enforce'',
         r_text = ''Your requested change: course X on Monday period 3'', r_in_iis = True\<rparr>,
        \<lparr>r_id = ''c2'', r_type = ''unknown'', r_text = ''Course Y needs a lab'', r_in_iis = True\<rparr>]
   \<and> g_edges (build_graph_of_reasons demo_iis ''why not Monday?'' demo_input_data)
     = [\<lparr>e_from = ''q1'', e_to = ''c2'', e_relationship = ''shares_variables''\<rparr>]
   \<and> g_reasons (build_graph_of_reasons [] ''why not Monday?'' demo_input_data) = []
   \<and> g_edges (build_graph_of_reasons [] ''why not Monday?'' demo_input_data) = []"
proof -
  note t = build_graph_of_reasons_total [of demo_iis "''why not Monday?''" demo_input_data]
  from t have l: "length (g_reasons (build_graph_of_reasons demo_iis ''why not Monday?'' demo_input_data)) = 3"
    by (simp add: demo_iis_def)
  from t have emp: "g_reasons (build_graph_of_reasons [] ''why not Monday?'' demo_input_data) = []"
    "g_edges (build_graph_of_reasons [] ''why not Monday?'' demo_input_data) = []"
    by simp_all
  have r: "g_reasons (build_graph_of_reasons demo_iis ''why not Monday?'' demo_input_data)
     = [\<lparr>r_id = ''c1'', r_type = ''minimality'',
         r_text = ''The new schedule must achieve at least the same objective value as the original optimal schedule'',
         r_in_iis = True\<rparr>,
        \<lparr>r_id = ''q1'', r_type = ''query_enforce'',
         r_text = ''Your requested change: course X on Monday period 3'', r_in_iis = True\<rparr>,
        \<lparr>r_id = ''c2'', r_type = ''unknown'', r_text = ''Course Y needs a lab'', r_in_iis = True\<rparr>]"
    by (simp add: build_graph_of_reasons_def demo_iis_def reason_of_def id_or_index_def
        get_default_def constraint_to_reason_def str_nat.simps digit_char_def split: prod.splits)
  have e: "g_edges (build_graph_of_reasons demo_iis ''why not Monday?'' demo_input_data)
     = [\<lparr>e_from = ''q1'', e_to = ''c2'', e_relationship = ''shares_variables''\<rparr>]"
    by (simp add: build_graph_of_reasons_def demo_iis_def id_or_index_def
        get_default_def constraints_share_scope_def common_keywords_def py_lower_def lower_char_def
        str_nat.simps digit_char_def split: prod.splits)
  from l r e emp show ?thesis by simp
qed

section \<open>Further properties of the translator\<close>

text \<open>
  The lunch loop returns only when it has something to count down: from a current time
  before the end of lunch it returns only for a positive period length. With a period
  length of zero or less it does not return.
\<close>

lemma lunch_loop_Some_positive:
  assumes "lunch_loop L ls le t k acc = Some r"
  shows "t < le \<longrightarrow> 0 < L"
proof (rule lunch_loop.raw_induct [where P = "\<lambda>L ls le t k acc r. t < le \<longrightarrow> 0 < L", OF _ assms])
  fix f :: "int \<Rightarrow> int \<Rightarrow> int \<Rightarrow> int \<Rightarrow> int \<Rightarrow> int list \<Rightarrow> int list option"
  fix L ls le t k :: int and acc r :: "int list"
  assume IH: "\<And>L ls le t k acc r. f L ls le t k acc = Some r \<Longrightarrow> t < le \<longrightarrow> 0 < L"
    and body: "(if t < le then
                  let period_end = t + L in
                  f L ls le period_end (k + 1)
                    (if period_end > ls \<and> t < le then acc @ [k] else acc)
                else Some acc) = Some r"
  show "t < le \<longrightarrow> 0 < L"
  proof
    assume lt: "t < le"
    show "0 < L"
    proof (rule ccontr)
      assume n: "\<not> 0 < L"
      with lt have lt': "t + L < le" by linarith
      from body lt have "f L ls le (t + L) (k + 1)
           (if ls < t + L \<and> t < le then acc @ [k] else acc) = Some r"
        by (simp add: Let_def)
      from IH [OF this] lt' n show False by simp
    qed
  qed
qed

lemma lunch_loop_diverges:
  "L \<le> 0 \<Longrightarrow> t < le \<Longrightarrow> lunch_loop L ls le t k acc = None"
  using lunch_loop_Some_positive [of L ls le t k acc] by (cases "lunch_loop L ls le t k acc") auto

text \<open>
  The instructor expansions where they agree: on an instance whose courses carry an
  \<^verbatim>\<open>id\<close>, both yield one \<^verbatim>\<open>veto_day\<close> constraint per course of the instructor, in the order
  of the instance. They differ only when the instructor has no course.
\<close>

lemma day_constraints_all_ids:
  "(\<forall>c \<in> set cs. c_id c \<noteq> None) \<Longrightarrow>
   day_constraints q d cs =
     Inr (map (\<lambda>c. (QueryConstraint_init q)\<lparr>course_id := c_id c, day := d\<rparr>) cs)"
  by (induction cs) (auto simp: index_key_def)

lemma instructor_expansion:
  assumes "p_course_id params = None" and "p_instructor_id params = Some i" and "i \<noteq> []"
    and "p_day params = Some d" and "d \<noteq> []"
    and "\<forall>c \<in> set (get_default (courses input_data) []). c_id c \<noteq> None"
  shows "parse_structured_query self ''veto_instructor_day'' params input_data
         = Some (Inr (map (\<lambda>c. (QueryConstraint_init VETO_DAY)\<lparr>course_id := c_id c, day := Some d\<rparr>)
              (filter (\<lambda>c. c_instructor_id c = Some i) (get_default (courses input_data) []))))"
    and "filter (\<lambda>c. c_instructor_id c = Some i) (get_default (courses input_data) []) \<noteq> [] \<Longrightarrow>
         parse_structured_query self ''veto_day'' params input_data
         = Some (Inr (map (\<lambda>c. (QueryConstraint_init VETO_DAY)\<lparr>course_id := c_id c, day := Some d\<rparr>)
              (filter (\<lambda>c. c_instructor_id c = Some i) (get_default (courses input_data) []))))"
    and "filter (\<lambda>c. c_instructor_id c = Some i) (get_default (courses input_data) []) = [] \<Longrightarrow>
         parse_structured_query self ''veto_day'' params input_data
         = Some (Inl (ValueError (''No courses found for instructor '' @ i)))"
proof -
  have ids: "\<forall>c \<in> set (courses_of_instructor input_data (Some i)). c_id c \<noteq> None"
    using assms(6) by (simp add: courses_of_instructor_def)
  show "parse_structured_query self ''veto_instructor_day'' params input_data
         = Some (Inr (map (\<lambda>c. (QueryConstraint_init VETO_DAY)\<lparr>course_id := c_id c, day := Some d\<rparr>)
              (filter (\<lambda>c. c_instructor_id c = Some i) (get_default (courses input_data) []))))"
    using assms(2-5) day_constraints_all_ids [OF ids, of VETO_DAY "Some d"]
    by (simp add: parse_structured_query_def QueryType_of_value_simps truthy_def
        courses_of_instructor_def)
  show "parse_structured_query self ''veto_day'' params input_data
         = Some (Inr (map (\<lambda>c. (QueryConstraint_init VETO_DAY)\<lparr>course_id := c_id c, day := Some d\<rparr>)
              (filter (\<lambda>c. c_instructor_id c = Some i) (get_default (courses input_data) []))))"
    if "filter (\<lambda>c. c_instructor_id c = Some i) (get_default (courses input_data) []) \<noteq> []"
    using assms(1-5) that day_constraints_all_ids [OF ids, of VETO_DAY "Some d"]
    by (simp add: parse_structured_query_def QueryType_of_value_simps truthy_def
        courses_of_instructor_def Let_def)
  show "parse_structured_query self ''veto_day'' params input_data
         = Some (Inl (ValueError (''No courses found for instructor '' @ i)))"
    if "filter (\<lambda>c. c_instructor_id c = Some i) (get_default (courses input_data) []) = []"
    using assms(1-5) that
    by (simp add: parse_structured_query_def QueryType_of_value_simps truthy_def
        courses_of_instructor_def Let_def fmt_str_def)
qed

end
